theory Spec2Isabelle
  imports Main
begin

section \<open>The passkey plugin: data model\<close>

text \<open>
  The development embeds the four endpoints of the passkey plugin
  (\<^verbatim>\<open>generatePasskeyRegistrationOptions\<close>, \<^verbatim>\<open>generatePasskeyAuthenticationOptions\<close>,
  \<^verbatim>\<open>verifyPasskeyRegistration\<close>, \<^verbatim>\<open>verifyPasskeyAuthentication\<close>) as pure functions
  from the request context and the persistent state to a result and the new state.
  A JavaScript value of type \<^verbatim>\<open>string | null | undefined\<close> is a \<open>string option\<close>;
  an optional property is an \<open>option\<close>; a promise that may reject is \<open>awaited\<close>.
\<close>

datatype CredentialDeviceType = singleDevice | multiDevice

text \<open>The type \<^verbatim>\<open>Passkey\<close>; the counter is the authenticator's unsigned usage counter.\<close>

record Passkey =
  passkey_id :: string
  publicKey :: string
  userId :: string
  webauthnUserID :: string
  counter :: nat
  deviceType :: CredentialDeviceType
  backedUp :: bool
  transports :: "string option"
  createdAt :: nat

text \<open>The type \<^verbatim>\<open>PasskeyOptions\<close> given to the plugin, and the process environment.\<close>

record PasskeyOptions =
  rpID :: string
  rpName :: string
  origin :: "string option"
  advanced_webAuthnChallengeCookie :: "string option"

record ProcessEnv =
  NODE_ENV :: "string option"

text \<open>The resolved options \<^verbatim>\<open>opts\<close> (\<^verbatim>\<open>RequiredDeep<PasskeyOptions>\<close>).\<close>

record Opts =
  opts_rpID :: string
  opts_rpName :: string
  opts_origin :: "string option"
  opts_webAuthnChallengeCookie :: string

definition opts :: "ProcessEnv \<Rightarrow> PasskeyOptions \<Rightarrow> Opts" where
  "opts env options =
     \<lparr> opts_rpID = (if NODE_ENV env = Some ''development'' then ''localhost'' else rpID options),
       opts_rpName = rpName options,
       opts_origin = origin options,
       opts_webAuthnChallengeCookie =
         (case advanced_webAuthnChallengeCookie options of
            None \<Rightarrow> ''better-auth-passkey''
          | Some c \<Rightarrow> c) \<rparr>"

definition webAuthnChallengeCookieExpiration :: nat where
  "webAuthnChallengeCookieExpiration = 60 * 60 * 24"

text \<open>
  The caller's session as the handlers read it: only \<^verbatim>\<open>session.user\<close> is used. The
  user object has the properties \<^verbatim>\<open>id\<close> and \<^verbatim>\<open>email\<close> and further ones (name, image,
  dates), kept as pairs of a key and the serialised value.
\<close>

record User =
  user_id :: string
  user_email :: string
  user_other :: "(string \<times> string) list"

record CallerSession =
  user :: User

text \<open>
  A serialised object is the list of its properties in order. \<open>user_object\<close> is the
  user object, \<open>obj_set\<close> the property written after a spread in an object literal:
  it replaces the value in place, or appends the property.
\<close>

definition user_object :: "User \<Rightarrow> (string \<times> string) list" where
  "user_object u = (''id'', user_id u) # (''email'', user_email u) # user_other u"

fun obj_set :: "string \<Rightarrow> string \<Rightarrow> (string \<times> string) list \<Rightarrow> (string \<times> string) list" where
  "obj_set k v [] = [(k, v)]"
| "obj_set k v (p # ps) = (if fst p = k then (k, v) # ps else p # obj_set k v ps)"

text \<open>
  The type \<^verbatim>\<open>WebAuthnCookieType\<close>, the challenge state carried in the cookie. Its
  \<^verbatim>\<open>userData\<close> is declared as \<^verbatim>\<open>{id, email}\<close>, but the object that is serialised
  may hold more properties and in another order, so it is kept as the object it is.
  \<open>userData_id\<close> reads \<^verbatim>\<open>userData.id\<close>; \<open>None\<close> is \<^verbatim>\<open>undefined\<close>.
\<close>

record WebAuthnCookieType =
  expectedChallenge :: string
  userData :: "(string \<times> string) list"
  callbackURL :: "string option"

definition userData_id :: "(string \<times> string) list \<Rightarrow> string option" where
  "userData_id ud = map_of ud ''id''"

subsection \<open>JavaScript operators used by the handlers\<close>

text \<open>\<^verbatim>\<open>a || b\<close> on strings: the empty string, null and undefined are falsy.\<close>

definition str_or :: "string option \<Rightarrow> string \<Rightarrow> string" where
  "str_or a b = (case a of None \<Rightarrow> b | Some s \<Rightarrow> if s = [] then b else s)"

text \<open>\<^verbatim>\<open>s.split(",")\<close>: the empty string splits into one empty piece.\<close>

fun split_js :: "char \<Rightarrow> string \<Rightarrow> string list" where
  "split_js sep [] = [[]]"
| "split_js sep (c # cs) =
     (if c = sep then [] # split_js sep cs
      else (case split_js sep cs of
              [] \<Rightarrow> [[c]]
            | w # ws \<Rightarrow> (c # w) # ws))"

text \<open>\<^verbatim>\<open>xs.join(",")\<close>: the empty array joins to the empty string.\<close>

fun join_js :: "char \<Rightarrow> string list \<Rightarrow> string" where
  "join_js sep [] = []"
| "join_js sep [w] = w"
| "join_js sep (w # v # ws) = w @ sep # join_js sep (v # ws)"

subsection \<open>Signed cookies\<close>

text \<open>
  A cookie's string value is kept in parsed form: \<open>JSONText d\<close> stands for the text
  \<^verbatim>\<open>JSON.stringify(d)\<close> of a challenge state, \<open>PlainText s\<close> for any other string.
  The signature is symbolic: the keyed hash of a value under a secret is the pair of
  both, so a signature verifies only for the secret and the value it was made from.
\<close>

datatype cookie_value = JSONText WebAuthnCookieType | PlainText string

datatype signature = HMAC string cookie_value

record Cookie =
  cookie_name :: string
  cookie_value :: cookie_value
  cookie_signature :: signature
  cookie_expires :: nat

definition JSON_stringify :: "WebAuthnCookieType \<Rightarrow> cookie_value" where
  "JSON_stringify data = JSONText data"

text \<open>\<^verbatim>\<open>JSON.parse(s) as WebAuthnCookieType\<close>; \<open>None\<close> is the SyntaxError it throws.\<close>

fun JSON_parse :: "cookie_value \<Rightarrow> WebAuthnCookieType option" where
  "JSON_parse (JSONText data) = Some data"
| "JSON_parse (PlainText s) = None"

text \<open>
  What \<^verbatim>\<open>ctx.getSignedCookie\<close> returns: the value, \<^verbatim>\<open>null\<close> or \<^verbatim>\<open>false\<close>.
\<close>

datatype cookie_lookup = CookieValue cookie_value | CookieNull | CookieFalse

text \<open>\<^verbatim>\<open>!challengeString\<close>: null, false and the empty string are falsy.\<close>

fun falsy :: "cookie_lookup \<Rightarrow> bool" where
  "falsy CookieNull = True"
| "falsy CookieFalse = True"
| "falsy (CookieValue (PlainText s)) = (s = [])"
| "falsy (CookieValue (JSONText d)) = False"

text \<open>
  Modelled from the spec: \<^verbatim>\<open>ctx.setSignedCookie\<close> and \<^verbatim>\<open>ctx.getSignedCookie\<close> are not
  under src/. The spec's ChallengeCodec seals by signing with the server-held secret and
  gives the token a fixed time to live; unsealing rejects a missing token, a token whose
  time to live has elapsed and a token whose signature does not verify. The clock counts
  seconds; a cookie set at \<open>t\<close> with \<open>maxAge\<close> is live strictly before \<open>t + maxAge\<close>.
\<close>

definition setSignedCookie :: "nat \<Rightarrow> string \<Rightarrow> cookie_value \<Rightarrow> string \<Rightarrow> nat \<Rightarrow> Cookie" where
  \<comment> \<open>Modelled from the spec: \<^verbatim>\<open>ctx.setSignedCookie\<close> is missing; sign with the secret, live for \<open>maxAge\<close>.\<close>
  "setSignedCookie t name v key maxAge =
     \<lparr> cookie_name = name, cookie_value = v, cookie_signature = HMAC key v,
       cookie_expires = t + maxAge \<rparr>"

definition getSignedCookie :: "nat \<Rightarrow> Cookie list \<Rightarrow> string \<Rightarrow> string \<Rightarrow> cookie_lookup" where
  \<comment> \<open>Modelled from the spec: \<^verbatim>\<open>ctx.getSignedCookie\<close> is missing; reject a missing, an expired
      and a wrongly signed token.\<close>
  "getSignedCookie t jar name key =
     (case find (\<lambda>c. cookie_name c = name) jar of
        None \<Rightarrow> CookieNull
      | Some c \<Rightarrow>
          if cookie_expires c \<le> t then CookieNull
          else if cookie_signature c \<noteq> HMAC key (cookie_value c) then CookieFalse
          else CookieValue (cookie_value c))"

subsection \<open>The verification oracle\<close>

text \<open>
  The WebAuthn library and Node's \<^verbatim>\<open>Buffer\<close> are external: the handlers take them as
  parameters. A call that throws (a rejected promise) is \<open>Rejected\<close>.
\<close>

datatype 'a awaited = Resolved 'a | Rejected

record RegistrationResponseJSON =
  reg_id :: string
  reg_transports :: "string list option"

record AuthenticationResponseJSON =
  auth_id :: string

record RegistrationInfo =
  credentialID :: string
  credentialPublicKey :: "nat list"
  info_counter :: nat
  credentialDeviceType :: CredentialDeviceType
  credentialBackedUp :: bool

record VerifiedRegistrationResponse =
  reg_verified :: bool
  registrationInfo :: "RegistrationInfo option"

record VerifiedAuthenticationResponse =
  auth_verified :: bool
  newCounter :: nat

record VerifyRegistrationArgs =
  vr_response :: "RegistrationResponseJSON option"
  vr_expectedChallenge :: string
  vr_expectedOrigin :: string
  vr_expectedRPID :: string

record AuthenticatorDevice =
  dev_credentialID :: string
  dev_credentialPublicKey :: "nat list"
  dev_counter :: nat
  dev_transports :: "string list option"

record VerifyAuthenticationArgs =
  va_response :: AuthenticationResponseJSON
  va_expectedChallenge :: string
  va_expectedOrigin :: string
  va_expectedRPID :: string
  va_authenticator :: AuthenticatorDevice

record Library =
  verifyRegistrationResponse :: "VerifyRegistrationArgs \<Rightarrow> VerifiedRegistrationResponse awaited"
  verifyAuthenticationResponse :: "VerifyAuthenticationArgs \<Rightarrow> VerifiedAuthenticationResponse awaited"
  toBase64 :: "nat list \<Rightarrow> string"
  fromBase64 :: "string \<Rightarrow> nat list"

record PublicKeyCredentialDescriptor =
  desc_id :: string
  desc_transports :: "string list option"

record PublicKeyCredentialCreationOptionsJSON =
  creation_challenge :: string
  creation_rp_name :: string
  creation_rp_id :: string
  creation_user_id :: string
  creation_user_name :: string
  attestation :: string
  excludeCredentials :: "PublicKeyCredentialDescriptor list"
  residentKey :: string
  creation_userVerification :: string
  authenticatorAttachment :: string

record PublicKeyCredentialRequestOptionsJSON =
  request_challenge :: string
  request_rpId :: string
  request_userVerification :: string
  allowCredentials :: "PublicKeyCredentialDescriptor list option"

text \<open>
  Modelled from the spec: \<^verbatim>\<open>generateRegistrationOptions\<close> and
  \<^verbatim>\<open>generateAuthenticationOptions\<close> belong to the external library. The spec's
  \<^verbatim>\<open>makeRegistrationOptions\<close> and \<^verbatim>\<open>makeAuthenticationOptions(rpId, allowList?)\<close>
  return the ceremony options for their arguments with a fresh random challenge; the
  challenge is the first argument here.
\<close>

definition generateRegistrationOptions ::
  "string \<Rightarrow> string \<Rightarrow> string \<Rightarrow> string \<Rightarrow> string \<Rightarrow> string \<Rightarrow>
   PublicKeyCredentialDescriptor list \<Rightarrow> string \<Rightarrow> string \<Rightarrow> string \<Rightarrow>
   PublicKeyCredentialCreationOptionsJSON" where
  \<comment> \<open>Modelled from the spec: the library's \<^verbatim>\<open>generateRegistrationOptions\<close> is missing.\<close>
  "generateRegistrationOptions ch rp_name rp_id uid uname att excl rk uv aa =
     \<lparr> creation_challenge = ch, creation_rp_name = rp_name, creation_rp_id = rp_id,
       creation_user_id = uid, creation_user_name = uname, attestation = att,
       excludeCredentials = excl, residentKey = rk, creation_userVerification = uv,
       authenticatorAttachment = aa \<rparr>"

definition generateAuthenticationOptions ::
  "string \<Rightarrow> string \<Rightarrow> string \<Rightarrow> PublicKeyCredentialDescriptor list option \<Rightarrow>
   PublicKeyCredentialRequestOptionsJSON" where
  \<comment> \<open>Modelled from the spec: the library's \<^verbatim>\<open>generateAuthenticationOptions\<close> is missing.\<close>
  "generateAuthenticationOptions ch rp_id uv allow =
     \<lparr> request_challenge = ch, request_rpId = rp_id, request_userVerification = uv,
       allowCredentials = allow \<rparr>"

subsection \<open>Persistent state\<close>

record Session =
  session_id :: string
  session_userId :: string

record World =
  passkeys :: "Passkey list"
  sessions :: "Session list"

text \<open>
  Modelled from the spec: the data adapter and the session issuer are not under src/.
  The spec's CredentialStore offers \<^verbatim>\<open>create\<close>, \<^verbatim>\<open>findById\<close>, \<^verbatim>\<open>findByOwner\<close> and
  \<^verbatim>\<open>update(id, partial fields)\<close>; the SessionIssuer offers \<^verbatim>\<open>createSession(userId)\<close>.
  The store is the list of its rows in insertion order.
\<close>

definition findMany_userId :: "World \<Rightarrow> string \<Rightarrow> Passkey list" where
  \<comment> \<open>Modelled from the spec: \<^verbatim>\<open>adapter.findMany\<close> is missing; the spec's \<^verbatim>\<open>findByOwner\<close>.\<close>
  "findMany_userId w uid = filter (\<lambda>p. userId p = uid) (passkeys w)"

definition findOne_id :: "World \<Rightarrow> string \<Rightarrow> Passkey option" where
  \<comment> \<open>Modelled from the spec: \<^verbatim>\<open>adapter.findOne\<close> is missing; the spec's \<^verbatim>\<open>findById\<close>.\<close>
  "findOne_id w i = find (\<lambda>p. passkey_id p = i) (passkeys w)"

definition create_passkey :: "World \<Rightarrow> Passkey \<Rightarrow> Passkey \<times> World" where
  \<comment> \<open>Modelled from the spec: \<^verbatim>\<open>adapter.create\<close> is missing; the spec's \<^verbatim>\<open>create\<close> adds one row.\<close>
  "create_passkey w p = (p, w\<lparr>passkeys := passkeys w @ [p]\<rparr>)"

definition update_counter :: "World \<Rightarrow> string \<Rightarrow> nat \<Rightarrow> World" where
  \<comment> \<open>Modelled from the spec: \<^verbatim>\<open>adapter.update\<close> is missing; the spec's \<^verbatim>\<open>update(id, fields)\<close>
      sets the counter of the rows with that id.\<close>
  "update_counter w i c =
     w\<lparr>passkeys := map (\<lambda>p. if passkey_id p = i then p\<lparr>counter := c\<rparr> else p) (passkeys w)\<rparr>"

definition createSession :: "World \<Rightarrow> string \<Rightarrow> string \<Rightarrow> Session \<times> World" where
  \<comment> \<open>Modelled from the spec: \<^verbatim>\<open>internalAdapter.createSession\<close> is missing; the spec's
      \<^verbatim>\<open>createSession(userId)\<close> returns a new session of that user.\<close>
  "createSession w sid uid =
     (let s = \<lparr> session_id = sid, session_userId = uid \<rparr>
      in (s, w\<lparr>sessions := sessions w @ [s]\<rparr>))"

subsection \<open>Requests and responses\<close>

text \<open>
  The request context: the \<^verbatim>\<open>origin\<close> header, the cookies the client sent, the server
  secret, the clock, and the random values the request draws (the library's challenge,
  \<^verbatim>\<open>generateRandomString\<close>, the id of a session created now).
\<close>

record Ctx =
  header_origin :: "string option"
  cookies :: "Cookie list"
  secret :: string
  now :: nat
  random_challenge :: string
  random_string :: string
  new_session_id :: string
  sessionToken_name :: string
  sessionToken_maxAge :: nat

record AuthenticateBody =
  body_email :: "string option"
  body_callbackURL :: "string option"

datatype json =
    JNull
  | JCreationOptions PublicKeyCredentialCreationOptionsJSON
  | JRequestOptions PublicKeyCredentialRequestOptionsJSON
  | JPasskey Passkey
  | JSession Session
  | JRedirect string Session

record Response =
  status :: nat
  body :: json
  message :: "string option"
  setCookies :: "Cookie list"

datatype error = APIError string string | TypeError | SyntaxError

datatype result = Return Response | Throw error

text \<open>\<^verbatim>\<open>ctx.json(x, {status, body: {message}})\<close> with the cookies set so far.\<close>

definition ctx_json :: "json \<Rightarrow> nat \<Rightarrow> string option \<Rightarrow> Cookie list \<Rightarrow> result" where
  "ctx_json j st msg cs = Return \<lparr> status = st, body = j, message = msg, setCookies = cs \<rparr>"

section \<open>The endpoints\<close>

text \<open>
  \<^verbatim>\<open>GET /passkey/generate-register-options\<close>. The session middleware has put the
  caller's session into the context, so the handler takes it as an argument.
\<close>

definition generatePasskeyRegistrationOptions ::
  "ProcessEnv \<Rightarrow> PasskeyOptions \<Rightarrow> Ctx \<Rightarrow> CallerSession \<Rightarrow> World \<Rightarrow> result \<times> World" where
  "generatePasskeyRegistrationOptions env options ctx session w =
     (let userPasskeys = findMany_userId w (user_id (user session));
          userID = random_string ctx;
          cr_options =
            generateRegistrationOptions (random_challenge ctx)
              (opts_rpName (opts env options))
              (opts_rpID (opts env options))
              userID
              (str_or (Some (user_email (user session))) (user_id (user session)))
              ''none''
              (map (\<lambda>passkey.
                      \<lparr> desc_id = passkey_id passkey,
                        desc_transports = map_option (split_js CHR '','') (transports passkey) \<rparr>)
                   userPasskeys)
              ''preferred'' ''preferred'' ''platform'';
          data =
            \<lparr> expectedChallenge = creation_challenge cr_options,
              userData =
                obj_set ''email''
                  (str_or (Some (user_email (user session))) (user_id (user session)))
                  (user_object (user session)),
              callbackURL = None \<rparr>;
          cookie =
            setSignedCookie (now ctx) (opts_webAuthnChallengeCookie (opts env options))
              (JSON_stringify data) (secret ctx) webAuthnChallengeCookieExpiration
      in (ctx_json (JCreationOptions cr_options) 200 None [cookie], w))"

text \<open>
  \<^verbatim>\<open>POST /passkey/generate-authenticate-options\<close>. The session is what
  \<^verbatim>\<open>getSessionFromCtx\<close> returned; the body is optional.
\<close>

definition generatePasskeyAuthenticationOptions ::
  "ProcessEnv \<Rightarrow> PasskeyOptions \<Rightarrow> Ctx \<Rightarrow> CallerSession option \<Rightarrow>
   AuthenticateBody option \<Rightarrow> World \<Rightarrow> result \<times> World" where
  "generatePasskeyAuthenticationOptions env options ctx session reqBody w =
     (let userPasskeys =
            (case session of
               None \<Rightarrow> []
             | Some s \<Rightarrow> findMany_userId w (user_id (user s)));
          rq_options =
            generateAuthenticationOptions (random_challenge ctx)
              (opts_rpID (opts env options))
              ''preferred''
              (if userPasskeys \<noteq> []
               then Some (map (\<lambda>passkey.
                                 \<lparr> desc_id = passkey_id passkey,
                                   desc_transports =
                                     map_option (split_js CHR '','') (transports passkey) \<rparr>)
                              userPasskeys)
               else None);
          data =
            \<lparr> expectedChallenge = request_challenge rq_options,
              userData =
                [(''email'',
                  str_or (map_option (\<lambda>s. user_email (user s)) session)
                    (str_or (map_option (\<lambda>s. user_id (user s)) session) [])),
                 (''id'', str_or (map_option (\<lambda>s. user_id (user s)) session) [])],
              callbackURL =
                (case reqBody of None \<Rightarrow> None | Some b \<Rightarrow> body_callbackURL b) \<rparr>;
          cookie =
            setSignedCookie (now ctx) (opts_webAuthnChallengeCookie (opts env options))
              (JSON_stringify data) (secret ctx) webAuthnChallengeCookieExpiration
      in (ctx_json (JRequestOptions rq_options) 200 None [cookie], w))"

text \<open>
  \<^verbatim>\<open>POST /passkey/verify-registration\<close>. The body's \<^verbatim>\<open>response\<close> is \<^verbatim>\<open>z.any()\<close>:
  it may be absent, and its \<^verbatim>\<open>response.transports\<close> may be absent. Everything from
  the oracle call on runs inside \<^verbatim>\<open>try\<close>: a rejected oracle call and the TypeError of
  reading \<^verbatim>\<open>transports\<close> both end in the \<^verbatim>\<open>catch\<close> branch. The test
  \<^verbatim>\<open>!verified || !registrationInfo\<close> is the case distinction on the registration info
  followed by the test of \<open>reg_verified\<close>. The expected relying-party id handed to the
  oracle is \<^verbatim>\<open>options.rpID\<close>, the option as configured. The test
  \<^verbatim>\<open>userData.id !== ctx.context.session.user.id\<close> also holds when the property is
  undefined; past it, \<^verbatim>\<open>userData.id\<close> is the string \<open>uid\<close>.
\<close>

definition verifyPasskeyRegistration ::
  "ProcessEnv \<Rightarrow> PasskeyOptions \<Rightarrow> Library \<Rightarrow> Ctx \<Rightarrow> CallerSession \<Rightarrow>
   RegistrationResponseJSON option \<Rightarrow> World \<Rightarrow> result \<times> World" where
  "verifyPasskeyRegistration env options lib ctx session resp w =
     (let origin_v = str_or (origin options) (str_or (header_origin ctx) [])
      in if origin_v = [] then (ctx_json JNull 400 None [], w)
      else
        let challengeString =
              getSignedCookie (now ctx) (cookies ctx)
                (opts_webAuthnChallengeCookie (opts env options)) (secret ctx)
        in if falsy challengeString then (ctx_json JNull 400 None [], w)
        else
          (case (case challengeString of CookieValue v \<Rightarrow> JSON_parse v | _ \<Rightarrow> None) of
             None \<Rightarrow> (Throw SyntaxError, w)
           | Some data \<Rightarrow>
               (case userData_id (userData data) of
                  None \<Rightarrow>
                    (Throw (APIError ''UNAUTHORIZED''
                              ''You are not authorized to register this passkey''), w)
                | Some uid \<Rightarrow>
                    if uid \<noteq> user_id (user session)
                    then (Throw (APIError ''UNAUTHORIZED''
                                   ''You are not authorized to register this passkey''), w)
                    else
                      (case verifyRegistrationResponse lib
                              \<lparr> vr_response = resp,
                                vr_expectedChallenge = expectedChallenge data,
                                vr_expectedOrigin = origin_v,
                                vr_expectedRPID = rpID options \<rparr> of
                         Rejected \<Rightarrow> (ctx_json JNull 400 (Some ''Registration failed'') [], w)
                       | Resolved verification \<Rightarrow>
                           (case registrationInfo verification of
                              None \<Rightarrow> (ctx_json JNull 400 None [], w)
                            | Some info \<Rightarrow>
                                if \<not> reg_verified verification
                                then (ctx_json JNull 400 None [], w)
                                else
                                  let pubKey = toBase64 lib (credentialPublicKey info);
                                      userID = random_string ctx
                                  in (case (case resp of
                                              None \<Rightarrow> None
                                            | Some r \<Rightarrow> reg_transports r) of
                                        None \<Rightarrow>
                                          (ctx_json JNull 400 (Some ''Registration failed'') [], w)
                                      | Some ts \<Rightarrow>
                                          let newPasskey =
                                                \<lparr> passkey_id = credentialID info,
                                                  publicKey = pubKey,
                                                  userId = uid,
                                                  webauthnUserID = userID,
                                                  counter = info_counter info,
                                                  deviceType = credentialDeviceType info,
                                                  backedUp = credentialBackedUp info,
                                                  transports = Some (join_js CHR '','' ts),
                                                  createdAt = now ctx \<rparr>;
                                              (newPasskeyRes, w') = create_passkey w newPasskey
                                          in (ctx_json (JPasskey newPasskeyRes) 200 None [], w')))))))"

text \<open>
  \<^verbatim>\<open>POST /passkey/verify-authentication\<close>. Reading \<^verbatim>\<open>resp.id\<close> of an absent response
  is a TypeError outside \<^verbatim>\<open>try\<close>. \<^verbatim>\<open>ctx.json\<close> without a status answers 200.
\<close>

definition verifyPasskeyAuthentication ::
  "ProcessEnv \<Rightarrow> PasskeyOptions \<Rightarrow> Library \<Rightarrow> Ctx \<Rightarrow>
   AuthenticationResponseJSON option \<Rightarrow> World \<Rightarrow> result \<times> World" where
  "verifyPasskeyAuthentication env options lib ctx resp w =
     (let origin_v = str_or (origin options) (str_or (header_origin ctx) [])
      in if origin_v = [] then (ctx_json JNull 400 None [], w)
      else
        let challengeString =
              getSignedCookie (now ctx) (cookies ctx)
                (opts_webAuthnChallengeCookie (opts env options)) (secret ctx)
        in if falsy challengeString then (ctx_json JNull 400 None [], w)
        else
          (case (case challengeString of CookieValue v \<Rightarrow> JSON_parse v | _ \<Rightarrow> None) of
             None \<Rightarrow> (Throw SyntaxError, w)
           | Some data \<Rightarrow>
               (case resp of
                  None \<Rightarrow> (Throw TypeError, w)
                | Some r \<Rightarrow>
                    (case findOne_id w (auth_id r) of
                       None \<Rightarrow> (ctx_json JNull 401 (Some ''Passkey not found'') [], w)
                     | Some passkey \<Rightarrow>
                         (case verifyAuthenticationResponse lib
                                 \<lparr> va_response = r,
                                   va_expectedChallenge = expectedChallenge data,
                                   va_expectedOrigin = origin_v,
                                   va_expectedRPID = opts_rpID (opts env options),
                                   va_authenticator =
                                     \<lparr> dev_credentialID = passkey_id passkey,
                                       dev_credentialPublicKey =
                                         fromBase64 lib (publicKey passkey),
                                       dev_counter = counter passkey,
                                       dev_transports =
                                         map_option (split_js CHR '','')
                                           (transports passkey) \<rparr> \<rparr> of
                            Rejected \<Rightarrow>
                              (ctx_json JNull 400 (Some ''Authentication failed'') [], w)
                          | Resolved verification \<Rightarrow>
                              if \<not> auth_verified verification
                              then (ctx_json JNull 401 (Some ''verification failed'') [], w)
                              else
                                let w1 = update_counter w (passkey_id passkey)
                                           (newCounter verification);
                                    (s, w2) = createSession w1 (new_session_id ctx)
                                                (userId passkey);
                                    cookie =
                                      setSignedCookie (now ctx) (sessionToken_name ctx)
                                        (PlainText (session_id s)) (secret ctx)
                                        (sessionToken_maxAge ctx)
                                in (case callbackURL data of
                                      None \<Rightarrow> (ctx_json (JSession s) 200 None [cookie], w2)
                                    | Some url \<Rightarrow>
                                        if url = []
                                        then (ctx_json (JSession s) 200 None [cookie], w2)
                                        else (ctx_json (JRedirect url s) 200 None [cookie],
                                              w2)))))))"

section \<open>Vocabulary of the specification\<close>

text \<open>
  The effective origin both verify endpoints compute:
  \<^verbatim>\<open>options.origin || ctx.headers?.get("origin") || ""\<close>.
\<close>

definition resolve_origin :: "PasskeyOptions \<Rightarrow> Ctx \<Rightarrow> string" where
  "resolve_origin options ctx = str_or (origin options) (str_or (header_origin ctx) [])"

text \<open>
  The spec's \<^verbatim>\<open>seal\<close> is what both option endpoints do with their challenge state
  (\<^verbatim>\<open>setSignedCookie\<close> of \<^verbatim>\<open>JSON.stringify(data)\<close> with the 24 hour max-age); its
  \<^verbatim>\<open>unseal\<close> is what both verify endpoints do (\<^verbatim>\<open>getSignedCookie\<close>, then
  \<^verbatim>\<open>JSON.parse\<close>), with \<open>None\<close> for every failure.
\<close>

definition seal :: "nat \<Rightarrow> string \<Rightarrow> string \<Rightarrow> WebAuthnCookieType \<Rightarrow> Cookie" where
  "seal t name key state =
     setSignedCookie t name (JSON_stringify state) key webAuthnChallengeCookieExpiration"

definition unseal :: "nat \<Rightarrow> Cookie list \<Rightarrow> string \<Rightarrow> string \<Rightarrow> WebAuthnCookieType option" where
  "unseal t jar name key =
     (case getSignedCookie t jar name key of
        CookieValue v \<Rightarrow> JSON_parse v
      | _ \<Rightarrow> None)"

text \<open>The challenge state a verify endpoint unseals from its request.\<close>

definition challenge_state :: "ProcessEnv \<Rightarrow> PasskeyOptions \<Rightarrow> Ctx \<Rightarrow> WebAuthnCookieType option" where
  "challenge_state env options ctx =
     unseal (now ctx) (cookies ctx) (opts_webAuthnChallengeCookie (opts env options)) (secret ctx)"

text \<open>
  The challenge cookie of a request, and the three ways it can be unusable: no cookie
  of that name, a cookie past its time to live, a cookie whose signature was not made
  with the server secret.
\<close>

definition challenge_cookie :: "ProcessEnv \<Rightarrow> PasskeyOptions \<Rightarrow> Ctx \<Rightarrow> Cookie option" where
  "challenge_cookie env options ctx =
     find (\<lambda>c. cookie_name c = opts_webAuthnChallengeCookie (opts env options)) (cookies ctx)"

definition token_missing :: "ProcessEnv \<Rightarrow> PasskeyOptions \<Rightarrow> Ctx \<Rightarrow> bool" where
  "token_missing env options ctx = (challenge_cookie env options ctx = None)"

definition token_expired :: "ProcessEnv \<Rightarrow> PasskeyOptions \<Rightarrow> Ctx \<Rightarrow> bool" where
  "token_expired env options ctx =
     (case challenge_cookie env options ctx of
        None \<Rightarrow> False
      | Some c \<Rightarrow> cookie_expires c \<le> now ctx)"

definition token_forged :: "ProcessEnv \<Rightarrow> PasskeyOptions \<Rightarrow> Ctx \<Rightarrow> bool" where
  "token_forged env options ctx =
     (case challenge_cookie env options ctx of
        None \<Rightarrow> False
      | Some c \<Rightarrow> cookie_signature c \<noteq> HMAC (secret ctx) (cookie_value c))"

text \<open>The arguments the verify endpoints hand to the oracle.\<close>

definition registration_args ::
  "PasskeyOptions \<Rightarrow> Ctx \<Rightarrow> WebAuthnCookieType \<Rightarrow> RegistrationResponseJSON option \<Rightarrow>
   VerifyRegistrationArgs" where
  "registration_args options ctx data resp =
     \<lparr> vr_response = resp,
       vr_expectedChallenge = expectedChallenge data,
       vr_expectedOrigin = resolve_origin options ctx,
       vr_expectedRPID = rpID options \<rparr>"

definition authentication_args ::
  "ProcessEnv \<Rightarrow> PasskeyOptions \<Rightarrow> Library \<Rightarrow> Ctx \<Rightarrow> WebAuthnCookieType \<Rightarrow>
   AuthenticationResponseJSON \<Rightarrow> Passkey \<Rightarrow> VerifyAuthenticationArgs" where
  "authentication_args env options lib ctx data r passkey =
     \<lparr> va_response = r,
       va_expectedChallenge = expectedChallenge data,
       va_expectedOrigin = resolve_origin options ctx,
       va_expectedRPID = opts_rpID (opts env options),
       va_authenticator =
         \<lparr> dev_credentialID = passkey_id passkey,
           dev_credentialPublicKey = fromBase64 lib (publicKey passkey),
           dev_counter = counter passkey,
           dev_transports = map_option (split_js CHR '','') (transports passkey) \<rparr> \<rparr>"

text \<open>Readers of a result and of the store.\<close>

fun result_status :: "result \<Rightarrow> nat option" where
  "result_status (Return r) = Some (status r)"
| "result_status (Throw e) = None"

fun issued_cookies :: "result \<Rightarrow> Cookie list" where
  "issued_cookies (Return r) = setCookies r"
| "issued_cookies (Throw e) = []"

fun request_options :: "result \<Rightarrow> PublicKeyCredentialRequestOptionsJSON option" where
  "request_options (Return r) = (case body r of JRequestOptions ro \<Rightarrow> Some ro | _ \<Rightarrow> None)"
| "request_options (Throw e) = None"

fun creation_options :: "result \<Rightarrow> PublicKeyCredentialCreationOptionsJSON option" where
  "creation_options (Return r) = (case body r of JCreationOptions co \<Rightarrow> Some co | _ \<Rightarrow> None)"
| "creation_options (Throw e) = None"

definition stored_counter :: "World \<Rightarrow> string \<Rightarrow> nat option" where
  "stored_counter w i = map_option counter (findOne_id w i)"

text \<open>
  The challenge state each option endpoint seals: registration options the spread of the
  caller's user object with the email overwritten, authentication options an object of
  email and id (empty strings without a session) and the redirect of the request body.
\<close>

definition registration_state :: "Ctx \<Rightarrow> CallerSession \<Rightarrow> WebAuthnCookieType" where
  "registration_state ctx session =
     \<lparr> expectedChallenge = random_challenge ctx,
       userData =
         obj_set ''email''
           (str_or (Some (user_email (user session))) (user_id (user session)))
           (user_object (user session)),
       callbackURL = None \<rparr>"

definition authentication_state ::
  "Ctx \<Rightarrow> CallerSession option \<Rightarrow> AuthenticateBody option \<Rightarrow> WebAuthnCookieType" where
  "authentication_state ctx session reqBody =
     \<lparr> expectedChallenge = random_challenge ctx,
       userData =
         [(''email'',
           str_or (map_option (\<lambda>s. user_email (user s)) session)
             (str_or (map_option (\<lambda>s. user_id (user s)) session) [])),
          (''id'', str_or (map_option (\<lambda>s. user_id (user s)) session) [])],
       callbackURL = (case reqBody of None \<Rightarrow> None | Some b \<Rightarrow> body_callbackURL b) \<rparr>"

text \<open>The cookies a client holds after each of the two option endpoints answered.\<close>

definition registration_token ::
  "ProcessEnv \<Rightarrow> PasskeyOptions \<Rightarrow> Ctx \<Rightarrow> CallerSession \<Rightarrow> World \<Rightarrow> Cookie list" where
  "registration_token env options ctx session w =
     issued_cookies (fst (generatePasskeyRegistrationOptions env options ctx session w))"

definition authentication_token ::
  "ProcessEnv \<Rightarrow> PasskeyOptions \<Rightarrow> Ctx \<Rightarrow> CallerSession option \<Rightarrow>
   AuthenticateBody option \<Rightarrow> World \<Rightarrow> Cookie list" where
  "authentication_token env options ctx session reqBody w =
     issued_cookies
       (fst (generatePasskeyAuthenticationOptions env options ctx session reqBody w))"

subsection \<open>Example requests\<close>

text \<open>
  A relying party \<^verbatim>\<open>example.com\<close> with the default cookie name, a request context with
  an origin header and secret \<^verbatim>\<open>secret\<close>, a challenge cookie sealed at time 100 with
  the state registration options seal for a user, and a store holding one credential
  \<^verbatim>\<open>cred-42\<close> of user \<^verbatim>\<open>bob\<close>.
\<close>

definition ex_options :: PasskeyOptions where
  "ex_options = \<lparr> rpID = ''example.com'', rpName = ''Example'', origin = None,
                  advanced_webAuthnChallengeCookie = None \<rparr>"

definition ex_env :: "string \<Rightarrow> ProcessEnv" where
  "ex_env mode = \<lparr> NODE_ENV = Some mode \<rparr>"

definition ex_session :: "string \<Rightarrow> CallerSession" where
  "ex_session name =
     \<lparr> user = \<lparr> user_id = name, user_email = name @ ''@example.com'',
                user_other = [(''name'', name)] \<rparr> \<rparr>"

definition ex_state :: "string \<Rightarrow> WebAuthnCookieType" where
  "ex_state name =
     \<lparr> expectedChallenge = ''c1'',
       userData = [(''id'', name), (''email'', name @ ''@example.com''), (''name'', name)],
       callbackURL = None \<rparr>"

definition ex_ctx :: "Cookie list \<Rightarrow> nat \<Rightarrow> Ctx" where
  "ex_ctx jar t =
     \<lparr> header_origin = Some ''https://example.com'', cookies = jar, secret = ''secret'',
       now = t, random_challenge = ''c1'', random_string = ''handle'',
       new_session_id = ''s1'', sessionToken_name = ''session_token'',
       sessionToken_maxAge = 3600 \<rparr>"

definition ex_passkey :: "string \<Rightarrow> nat \<Rightarrow> Passkey" where
  "ex_passkey owner n =
     \<lparr> passkey_id = ''cred-42'', publicKey = ''AQID'', userId = owner,
       webauthnUserID = ''h0'', counter = n, deviceType = multiDevice, backedUp = True,
       transports = Some ''internal,hybrid'', createdAt = 1 \<rparr>"

definition ex_info :: RegistrationInfo where
  "ex_info = \<lparr> credentialID = ''cred-7'', credentialPublicKey = [1, 2, 3], info_counter = 0,
               credentialDeviceType = singleDevice, credentialBackedUp = False \<rparr>"

definition ex_lib ::
  "VerifiedRegistrationResponse awaited \<Rightarrow> VerifiedAuthenticationResponse awaited \<Rightarrow> Library" where
  "ex_lib rv av =
     \<lparr> verifyRegistrationResponse = (\<lambda>a. rv), verifyAuthenticationResponse = (\<lambda>a. av),
       toBase64 = (\<lambda>bs. ''AQID''), fromBase64 = (\<lambda>s. [1, 2, 3]) \<rparr>"

definition ex_jar :: "string \<Rightarrow> WebAuthnCookieType \<Rightarrow> Cookie list" where
  "ex_jar key st = [seal 100 ''better-auth-passkey'' key st]"

definition ex_world :: "nat \<Rightarrow> World" where
  "ex_world n = \<lparr> passkeys = [ex_passkey ''bob'' n], sessions = [] \<rparr>"

text \<open>An oracle that verifies a registration only for one expected relying-party id.\<close>

definition rp_lib :: "string \<Rightarrow> Library" where
  "rp_lib rp =
     \<lparr> verifyRegistrationResponse =
         (\<lambda>a. if vr_expectedRPID a = rp
              then Resolved \<lparr> reg_verified = True, registrationInfo = Some ex_info \<rparr>
              else Rejected),
       verifyAuthenticationResponse = (\<lambda>a. Rejected),
       toBase64 = (\<lambda>bs. ''AQID''), fromBase64 = (\<lambda>s. [1, 2, 3]) \<rparr>"

section \<open>Properties\<close>

subsection \<open>Auxiliary facts\<close>

lemma JSON_parse_Some: "JSON_parse v = Some d \<longleftrightarrow> v = JSONText d"
  by (cases v) auto

lemma challenge_state_Some:
  "challenge_state env options ctx = Some data \<longleftrightarrow>
   getSignedCookie (now ctx) (cookies ctx)
     (opts_webAuthnChallengeCookie (opts env options)) (secret ctx) = CookieValue (JSONText data)"
  by (auto simp: challenge_state_def unseal_def JSON_parse_Some split: cookie_lookup.splits)

lemma token_falsy:
  "token_missing env options ctx \<or> token_expired env options ctx \<or> token_forged env options ctx
   \<Longrightarrow> falsy (getSignedCookie (now ctx) (cookies ctx)
                (opts_webAuthnChallengeCookie (opts env options)) (secret ctx))"
  by (auto simp: token_missing_def token_expired_def token_forged_def challenge_cookie_def
        getSignedCookie_def split: option.splits)

lemma verifyPasskeyAuthentication_falsy:
  "falsy (getSignedCookie (now ctx) (cookies ctx)
            (opts_webAuthnChallengeCookie (opts env options)) (secret ctx))
   \<Longrightarrow> verifyPasskeyAuthentication env options lib ctx resp w = (ctx_json JNull 400 None [], w)"
  by (simp add: verifyPasskeyAuthentication_def Let_def)

lemma verifyPasskeyRegistration_falsy:
  "falsy (getSignedCookie (now ctx) (cookies ctx)
            (opts_webAuthnChallengeCookie (opts env options)) (secret ctx))
   \<Longrightarrow> verifyPasskeyRegistration env options lib ctx session resp w =
         (ctx_json JNull 400 None [], w)"
  by (simp add: verifyPasskeyRegistration_def Let_def)

lemma verifyPasskeyRegistration_checked:
  assumes "resolve_origin options ctx \<noteq> []"
    and "challenge_state env options ctx = Some data"
    and "userData_id (userData data) = Some (user_id (user session))"
  shows "verifyPasskeyRegistration env options lib ctx session resp w =
     (case verifyRegistrationResponse lib (registration_args options ctx data resp) of
        Rejected \<Rightarrow> (ctx_json JNull 400 (Some ''Registration failed'') [], w)
      | Resolved verification \<Rightarrow>
          (case registrationInfo verification of
             None \<Rightarrow> (ctx_json JNull 400 None [], w)
           | Some info \<Rightarrow>
               if \<not> reg_verified verification then (ctx_json JNull 400 None [], w)
               else
                 (case (case resp of None \<Rightarrow> None | Some r \<Rightarrow> reg_transports r) of
                    None \<Rightarrow> (ctx_json JNull 400 (Some ''Registration failed'') [], w)
                  | Some ts \<Rightarrow>
                      (ctx_json
                         (JPasskey
                            \<lparr> passkey_id = credentialID info,
                              publicKey = toBase64 lib (credentialPublicKey info),
                              userId = user_id (user session),
                              webauthnUserID = random_string ctx,
                              counter = info_counter info,
                              deviceType = credentialDeviceType info,
                              backedUp = credentialBackedUp info,
                              transports = Some (join_js CHR '','' ts),
                              createdAt = now ctx \<rparr>) 200 None [],
                       w\<lparr>passkeys := passkeys w @
                           [\<lparr> passkey_id = credentialID info,
                              publicKey = toBase64 lib (credentialPublicKey info),
                              userId = user_id (user session),
                              webauthnUserID = random_string ctx,
                              counter = info_counter info,
                              deviceType = credentialDeviceType info,
                              backedUp = credentialBackedUp info,
                              transports = Some (join_js CHR '','' ts),
                              createdAt = now ctx \<rparr>]\<rparr>))))"
  using assms
  by (simp add: verifyPasskeyRegistration_def resolve_origin_def challenge_state_Some
        registration_args_def create_passkey_def Let_def
      split: awaited.splits option.splits)

lemma verifyPasskeyRegistration_world:
  "snd (verifyPasskeyRegistration env options lib ctx session resp w) = w
   \<or> (\<exists>p. snd (verifyPasskeyRegistration env options lib ctx session resp w) =
            w\<lparr>passkeys := passkeys w @ [p]\<rparr>
          \<and> (\<exists>r ts. resp = Some r \<and> reg_transports r = Some ts))"
  by (auto simp: verifyPasskeyRegistration_def create_passkey_def Let_def
      split: awaited.splits option.splits)

lemmas ex_defs = ex_options_def ex_env_def ex_session_def ex_state_def ex_ctx_def
  ex_passkey_def ex_info_def ex_lib_def

lemma ex_ctx_sel [simp]:
  "now (ex_ctx jar t) = t" "secret (ex_ctx jar t) = ''secret''" "cookies (ex_ctx jar t) = jar"
  "header_origin (ex_ctx jar t) = Some ''https://example.com''"
  "random_challenge (ex_ctx jar t) = ''c1''" "random_string (ex_ctx jar t) = ''handle''"
  "new_session_id (ex_ctx jar t) = ''s1''" "sessionToken_name (ex_ctx jar t) = ''session_token''"
  "sessionToken_maxAge (ex_ctx jar t) = 3600"
  by (simp_all add: ex_ctx_def)

lemma ex_origin [simp]: "resolve_origin ex_options (ex_ctx jar t) = ''https://example.com''"
  by (simp add: resolve_origin_def str_or_def ex_options_def ex_ctx_def)

lemma ex_challenge_cookie [simp]:
  "challenge_cookie (ex_env m) ex_options (ex_ctx (ex_jar key st) t) =
     Some (seal 100 ''better-auth-passkey'' key st)"
  by (simp add: challenge_cookie_def opts_def ex_options_def ex_ctx_def ex_jar_def seal_def
        setSignedCookie_def)

lemma ex_challenge_cookie_none [simp]:
  "challenge_cookie (ex_env m) ex_options (ex_ctx [] t) = None"
  by (simp add: challenge_cookie_def ex_ctx_def)

lemma ex_challenge_state [simp]:
  "t < 86500 \<Longrightarrow>
   challenge_state (ex_env m) ex_options (ex_ctx (ex_jar ''secret'' st) t) = Some st"
  by (simp add: challenge_state_def unseal_def getSignedCookie_def seal_def
        setSignedCookie_def JSON_stringify_def opts_def webAuthnChallengeCookieExpiration_def
        ex_options_def ex_ctx_def ex_jar_def)

lemma ex_findOne [simp]:
  "findOne_id (ex_world n) i = (if i = ''cred-42'' then Some (ex_passkey ''bob'' n) else None)"
  by (auto simp: findOne_id_def ex_world_def ex_passkey_def)

lemma ex_options_sel [simp]:
  "rpID ex_options = ''example.com''" "rpName ex_options = ''Example''"
  "origin ex_options = None" "advanced_webAuthnChallengeCookie ex_options = None"
  by (simp_all add: ex_options_def)

lemma generatePasskeyRegistrationOptions_result:
  "generatePasskeyRegistrationOptions env options ctx session w =
     (ctx_json
        (JCreationOptions
           (generateRegistrationOptions (random_challenge ctx)
              (opts_rpName (opts env options)) (opts_rpID (opts env options))
              (random_string ctx)
              (str_or (Some (user_email (user session))) (user_id (user session)))
              ''none''
              (map (\<lambda>passkey.
                      \<lparr> desc_id = passkey_id passkey,
                        desc_transports = map_option (split_js CHR '','') (transports passkey) \<rparr>)
                   (findMany_userId w (user_id (user session))))
              ''preferred'' ''preferred'' ''platform''))
        200 None
        [seal (now ctx) (opts_webAuthnChallengeCookie (opts env options)) (secret ctx)
           \<lparr> expectedChallenge = random_challenge ctx,
             userData =
               obj_set ''email''
                 (str_or (Some (user_email (user session))) (user_id (user session)))
                 (user_object (user session)),
             callbackURL = None \<rparr>],
      w)"
  by (simp add: generatePasskeyRegistrationOptions_def seal_def Let_def
        generateRegistrationOptions_def)

lemma ex_registration_cookie:
  "issued_cookies (fst (generatePasskeyRegistrationOptions (ex_env m) ex_options (ex_ctx jar 100)
                          (ex_session ''alice'') w)) = ex_jar ''secret'' (ex_state ''alice'')"
  by (simp add: generatePasskeyRegistrationOptions_result ctx_json_def ex_jar_def ex_state_def
        ex_session_def str_or_def opts_def ex_options_def user_object_def)

subsection \<open>Registration bound to the caller\<close>

text \<open>
  Claim C2. A verify-registration request whose unsealed challenge state carries a subject
  user id different from the authenticated caller's id fails with \<^verbatim>\<open>UNAUTHORIZED\<close>, and
  the store is returned unchanged: no credential is created. The request has reached the
  unseal step, so an origin was resolved and the cookie unsealed to the state \<open>data\<close>.
\<close>

theorem verifyPasskeyRegistration_subject_mismatch:
  assumes "resolve_origin options ctx \<noteq> []"
    and "challenge_state env options ctx = Some data"
    and "userData_id (userData data) \<noteq> Some (user_id (user session))"
  shows "verifyPasskeyRegistration env options lib ctx session resp w =
           (Throw (APIError ''UNAUTHORIZED''
                     ''You are not authorized to register this passkey''), w)"
  using assms
  by (simp add: verifyPasskeyRegistration_def resolve_origin_def challenge_state_Some Let_def
      split: option.splits)

theorem verifyPasskeyRegistration_subject_mismatch_witness:
  "resolve_origin ex_options (ex_ctx (ex_jar ''secret'' (ex_state ''alice'')) 200) \<noteq> []
   \<and> challenge_state (ex_env ''production'') ex_options
        (ex_ctx (ex_jar ''secret'' (ex_state ''alice'')) 200) = Some (ex_state ''alice'')
   \<and> userData_id (userData (ex_state ''alice'')) \<noteq> Some (user_id (user (ex_session ''bob'')))
   \<and> verifyPasskeyRegistration (ex_env ''production'') ex_options
        (ex_lib (Resolved \<lparr> reg_verified = True, registrationInfo = Some ex_info \<rparr>) Rejected)
        (ex_ctx (ex_jar ''secret'' (ex_state ''alice'')) 200)
        (ex_session ''bob'')
        (Some \<lparr> reg_id = ''cred-7'', reg_transports = Some [''internal''] \<rparr>)
        (ex_world 0)
      = (Throw (APIError ''UNAUTHORIZED''
                  ''You are not authorized to register this passkey''), ex_world 0)"
proof -
  let ?ctx = "ex_ctx (ex_jar ''secret'' (ex_state ''alice'')) 200"
  have o: "resolve_origin ex_options ?ctx \<noteq> []"
    by simp
  have c: "challenge_state (ex_env ''production'') ex_options ?ctx = Some (ex_state ''alice'')"
    by simp
  have m: "userData_id (userData (ex_state ''alice'')) \<noteq> Some (user_id (user (ex_session ''bob'')))"
    by (simp add: ex_state_def ex_session_def userData_id_def)
  show ?thesis
    using o c m verifyPasskeyRegistration_subject_mismatch [OF o c m]
    by simp
qed

subsection \<open>Failures of verify-authentication\<close>

text \<open>
  Claim C3. Verify-authentication answers 400 when the sealed challenge token is missing
  or invalid (past its time to live, or signed with another secret), 401 when the claimed
  credential id is not in the store, and 401 when the oracle reports the response not
  verified. In each case the body is null, no cookie is set and the state is returned
  unchanged, so no session is issued. The two 401 answers are those of a request that
  passed the earlier steps: an origin was resolved and the token unsealed to \<open>data\<close>.
\<close>

theorem verifyPasskeyAuthentication_failures:
  "(token_missing env options ctx_m
      \<longrightarrow> verifyPasskeyAuthentication env options lib ctx_m resp w =
            (ctx_json JNull 400 None [], w))
   \<and> (token_expired env options ctx_e
      \<longrightarrow> verifyPasskeyAuthentication env options lib ctx_e resp w =
            (ctx_json JNull 400 None [], w))
   \<and> (token_forged env options ctx_f
      \<longrightarrow> verifyPasskeyAuthentication env options lib ctx_f resp w =
            (ctx_json JNull 400 None [], w))
   \<and> (resolve_origin options ctx \<noteq> [] \<and> challenge_state env options ctx = Some data
        \<and> findOne_id w (auth_id r) = None
      \<longrightarrow> verifyPasskeyAuthentication env options lib ctx (Some r) w =
            (ctx_json JNull 401 (Some ''Passkey not found'') [], w))
   \<and> (resolve_origin options ctx \<noteq> [] \<and> challenge_state env options ctx = Some data
        \<and> findOne_id w (auth_id r') = Some passkey
        \<and> verifyAuthenticationResponse lib
             (authentication_args env options lib ctx data r' passkey) = Resolved v
        \<and> \<not> auth_verified v
      \<longrightarrow> verifyPasskeyAuthentication env options lib ctx (Some r') w =
            (ctx_json JNull 401 (Some ''verification failed'') [], w))"
proof (intro conjI impI)
  assume "token_missing env options ctx_m"
  then show "verifyPasskeyAuthentication env options lib ctx_m resp w =
               (ctx_json JNull 400 None [], w)"
    by (intro verifyPasskeyAuthentication_falsy token_falsy) simp
next
  assume "token_expired env options ctx_e"
  then show "verifyPasskeyAuthentication env options lib ctx_e resp w =
               (ctx_json JNull 400 None [], w)"
    by (intro verifyPasskeyAuthentication_falsy token_falsy) simp
next
  assume "token_forged env options ctx_f"
  then show "verifyPasskeyAuthentication env options lib ctx_f resp w =
               (ctx_json JNull 400 None [], w)"
    by (intro verifyPasskeyAuthentication_falsy token_falsy) simp
next
  assume "resolve_origin options ctx \<noteq> [] \<and> challenge_state env options ctx = Some data
            \<and> findOne_id w (auth_id r) = None"
  then show "verifyPasskeyAuthentication env options lib ctx (Some r) w =
               (ctx_json JNull 401 (Some ''Passkey not found'') [], w)"
    by (simp add: verifyPasskeyAuthentication_def resolve_origin_def challenge_state_Some
          Let_def)
next
  assume "resolve_origin options ctx \<noteq> [] \<and> challenge_state env options ctx = Some data
            \<and> findOne_id w (auth_id r') = Some passkey
            \<and> verifyAuthenticationResponse lib
                 (authentication_args env options lib ctx data r' passkey) = Resolved v
            \<and> \<not> auth_verified v"
  then show "verifyPasskeyAuthentication env options lib ctx (Some r') w =
               (ctx_json JNull 401 (Some ''verification failed'') [], w)"
    by (simp add: verifyPasskeyAuthentication_def resolve_origin_def challenge_state_Some
          authentication_args_def Let_def)
qed

theorem verifyPasskeyAuthentication_failures_witness:
  "token_missing (ex_env ''production'') ex_options (ex_ctx [] 200)
   \<and> token_expired (ex_env ''production'') ex_options
        (ex_ctx (ex_jar ''secret'' (ex_state ''bob'')) 90000)
   \<and> token_forged (ex_env ''production'') ex_options
        (ex_ctx (ex_jar ''guess'' (ex_state ''bob'')) 200)
   \<and> resolve_origin ex_options (ex_ctx (ex_jar ''secret'' (ex_state ''bob'')) 200) \<noteq> []
   \<and> challenge_state (ex_env ''production'') ex_options
        (ex_ctx (ex_jar ''secret'' (ex_state ''bob'')) 200) = Some (ex_state ''bob'')
   \<and> findOne_id (ex_world 5) (auth_id \<lparr> auth_id = ''cred-0'' \<rparr>) = None
   \<and> findOne_id (ex_world 5) (auth_id \<lparr> auth_id = ''cred-42'' \<rparr>) = Some (ex_passkey ''bob'' 5)
   \<and> \<not> auth_verified \<lparr> auth_verified = False, newCounter = 5 \<rparr>
   \<and> verifyPasskeyAuthentication (ex_env ''production'') ex_options
        (ex_lib Rejected (Resolved \<lparr> auth_verified = False, newCounter = 5 \<rparr>))
        (ex_ctx [] 200) None (ex_world 5)
      = (ctx_json JNull 400 None [], ex_world 5)
   \<and> verifyPasskeyAuthentication (ex_env ''production'') ex_options
        (ex_lib Rejected (Resolved \<lparr> auth_verified = False, newCounter = 5 \<rparr>))
        (ex_ctx (ex_jar ''secret'' (ex_state ''bob'')) 90000) None (ex_world 5)
      = (ctx_json JNull 400 None [], ex_world 5)
   \<and> verifyPasskeyAuthentication (ex_env ''production'') ex_options
        (ex_lib Rejected (Resolved \<lparr> auth_verified = False, newCounter = 5 \<rparr>))
        (ex_ctx (ex_jar ''guess'' (ex_state ''bob'')) 200) None (ex_world 5)
      = (ctx_json JNull 400 None [], ex_world 5)
   \<and> verifyPasskeyAuthentication (ex_env ''production'') ex_options
        (ex_lib Rejected (Resolved \<lparr> auth_verified = False, newCounter = 5 \<rparr>))
        (ex_ctx (ex_jar ''secret'' (ex_state ''bob'')) 200)
        (Some \<lparr> auth_id = ''cred-0'' \<rparr>) (ex_world 5)
      = (ctx_json JNull 401 (Some ''Passkey not found'') [], ex_world 5)
   \<and> verifyPasskeyAuthentication (ex_env ''production'') ex_options
        (ex_lib Rejected (Resolved \<lparr> auth_verified = False, newCounter = 5 \<rparr>))
        (ex_ctx (ex_jar ''secret'' (ex_state ''bob'')) 200)
        (Some \<lparr> auth_id = ''cred-42'' \<rparr>) (ex_world 5)
      = (ctx_json JNull 401 (Some ''verification failed'') [], ex_world 5)"
proof -
  let ?lib = "ex_lib Rejected (Resolved \<lparr> auth_verified = False, newCounter = 5 \<rparr>)"
  have m: "token_missing (ex_env ''production'') ex_options (ex_ctx [] 200)"
    by (simp add: token_missing_def)
  have e: "token_expired (ex_env ''production'') ex_options
             (ex_ctx (ex_jar ''secret'' (ex_state ''bob'')) 90000)"
    by (simp add: token_expired_def seal_def setSignedCookie_def
          webAuthnChallengeCookieExpiration_def)
  have f: "token_forged (ex_env ''production'') ex_options
             (ex_ctx (ex_jar ''guess'' (ex_state ''bob'')) 200)"
    by (simp add: token_forged_def seal_def setSignedCookie_def)
  have v: "verifyAuthenticationResponse ?lib a =
             Resolved \<lparr> auth_verified = False, newCounter = 5 \<rparr>" for a
    by (simp add: ex_lib_def)
  show ?thesis
    using m e f v
      verifyPasskeyAuthentication_failures
        [where env = "ex_env ''production''" and options = ex_options and lib = ?lib
           and ctx_m = "ex_ctx [] 200"
           and ctx_e = "ex_ctx (ex_jar ''secret'' (ex_state ''bob'')) 90000"
           and ctx_f = "ex_ctx (ex_jar ''guess'' (ex_state ''bob'')) 200"
           and ctx = "ex_ctx (ex_jar ''secret'' (ex_state ''bob'')) 200"
           and data = "ex_state ''bob''" and w = "ex_world 5" and resp = None
           and r = "\<lparr> auth_id = ''cred-0'' \<rparr>" and r' = "\<lparr> auth_id = ''cred-42'' \<rparr>"
           and passkey = "ex_passkey ''bob'' 5"
           and v = "\<lparr> auth_verified = False, newCounter = 5 \<rparr>"]
    by simp
qed

subsection \<open>A registration response without transports\<close>

text \<open>
  Claim C9. Verify-registration reads \<^verbatim>\<open>response.response.transports\<close> without a guard.
  For a response that omits the field no credential is persisted, whatever else the
  request holds; a request that passed the subject check is answered 400 with a null body;
  and when the oracle reports verified with registration info, the answer is the one of
  the \<^verbatim>\<open>catch\<close> branch, reached before the store's create call.
\<close>

theorem verifyPasskeyRegistration_transports_omitted:
  assumes "reg_transports r = None"
  shows "snd (verifyPasskeyRegistration env options lib ctx session (Some r) w) = w
    \<and> (resolve_origin options ctx \<noteq> [] \<and> challenge_state env options ctx = Some data
         \<and> userData_id (userData data) = Some (user_id (user session))
       \<longrightarrow> (\<exists>msg. fst (verifyPasskeyRegistration env options lib ctx session (Some r) w) =
                    ctx_json JNull 400 msg [])
           \<and> (verifyRegistrationResponse lib (registration_args options ctx data (Some r)) =
                 Resolved \<lparr> reg_verified = True, registrationInfo = Some info \<rparr>
               \<longrightarrow> fst (verifyPasskeyRegistration env options lib ctx session (Some r) w) =
                     ctx_json JNull 400 (Some ''Registration failed'') []))"
proof (intro conjI impI)
  show "snd (verifyPasskeyRegistration env options lib ctx session (Some r) w) = w"
    using assms verifyPasskeyRegistration_world [of env options lib ctx session "Some r" w]
    by auto
next
  assume "resolve_origin options ctx \<noteq> [] \<and> challenge_state env options ctx = Some data
            \<and> userData_id (userData data) = Some (user_id (user session))"
  then show "\<exists>msg. fst (verifyPasskeyRegistration env options lib ctx session (Some r) w) =
                ctx_json JNull 400 msg []"
    using assms
    by (auto simp: verifyPasskeyRegistration_checked split: awaited.splits option.splits)
next
  assume "resolve_origin options ctx \<noteq> [] \<and> challenge_state env options ctx = Some data
            \<and> userData_id (userData data) = Some (user_id (user session))"
    and "verifyRegistrationResponse lib (registration_args options ctx data (Some r)) =
           Resolved \<lparr> reg_verified = True, registrationInfo = Some info \<rparr>"
  then show "fst (verifyPasskeyRegistration env options lib ctx session (Some r) w) =
               ctx_json JNull 400 (Some ''Registration failed'') []"
    using assms by (simp add: verifyPasskeyRegistration_checked)
qed

theorem verifyPasskeyRegistration_transports_omitted_witness:
  "reg_transports \<lparr> reg_id = ''cred-7'', reg_transports = None \<rparr> = None
   \<and> resolve_origin ex_options (ex_ctx (ex_jar ''secret'' (ex_state ''alice'')) 200) \<noteq> []
   \<and> challenge_state (ex_env ''production'') ex_options
        (ex_ctx (ex_jar ''secret'' (ex_state ''alice'')) 200) = Some (ex_state ''alice'')
   \<and> userData_id (userData (ex_state ''alice'')) = Some (user_id (user (ex_session ''alice'')))
   \<and> verifyRegistrationResponse
        (ex_lib (Resolved \<lparr> reg_verified = True, registrationInfo = Some ex_info \<rparr>) Rejected)
        (registration_args ex_options (ex_ctx (ex_jar ''secret'' (ex_state ''alice'')) 200)
           (ex_state ''alice'') (Some \<lparr> reg_id = ''cred-7'', reg_transports = None \<rparr>))
      = Resolved \<lparr> reg_verified = True, registrationInfo = Some ex_info \<rparr>
   \<and> verifyPasskeyRegistration (ex_env ''production'') ex_options
        (ex_lib (Resolved \<lparr> reg_verified = True, registrationInfo = Some ex_info \<rparr>) Rejected)
        (ex_ctx (ex_jar ''secret'' (ex_state ''alice'')) 200)
        (ex_session ''alice'')
        (Some \<lparr> reg_id = ''cred-7'', reg_transports = None \<rparr>)
        (ex_world 0)
      = (ctx_json JNull 400 (Some ''Registration failed'') [], ex_world 0)"
proof -
  let ?ctx = "ex_ctx (ex_jar ''secret'' (ex_state ''alice'')) 200"
  let ?lib = "ex_lib (Resolved \<lparr> reg_verified = True, registrationInfo = Some ex_info \<rparr>)
                Rejected"
  let ?r = "\<lparr> reg_id = ''cred-7'', reg_transports = None \<rparr>"
  have t: "reg_transports ?r = None"
    by simp
  have m: "userData_id (userData (ex_state ''alice'')) =
             Some (user_id (user (ex_session ''alice'')))"
    by (simp add: ex_state_def ex_session_def userData_id_def)
  have v: "verifyRegistrationResponse ?lib a =
             Resolved \<lparr> reg_verified = True, registrationInfo = Some ex_info \<rparr>" for a
    by (simp add: ex_lib_def)
  show ?thesis
    using m v
      verifyPasskeyRegistration_transports_omitted
        [OF t, where env = "ex_env ''production''" and options = ex_options and lib = ?lib
           and ctx = ?ctx and session = "ex_session ''alice''" and w = "ex_world 0"
           and data = "ex_state ''alice''" and info = ex_info]
    by (simp add: prod_eq_iff)
qed

subsection \<open>Enrolment after a verified ceremony\<close>

text \<open>
  Claim C5. Every registration ceremony the oracle reports verified, with registration
  info, should persist exactly one credential. At a verified response that omits its
  optional \<^verbatim>\<open>transports\<close> field the endpoint answers 400 and the store still holds
  only the credential it held before.
\<close>

theorem verifyPasskeyRegistration_verified_without_transports:
  "verifyRegistrationResponse
     (ex_lib (Resolved \<lparr> reg_verified = True, registrationInfo = Some ex_info \<rparr>) Rejected)
     (registration_args ex_options (ex_ctx (ex_jar ''secret'' (ex_state ''carol'')) 300)
        (ex_state ''carol'') (Some \<lparr> reg_id = ''cred-7'', reg_transports = None \<rparr>))
   = Resolved \<lparr> reg_verified = True, registrationInfo = Some ex_info \<rparr>
   \<and> verifyPasskeyRegistration (ex_env ''production'') ex_options
        (ex_lib (Resolved \<lparr> reg_verified = True, registrationInfo = Some ex_info \<rparr>) Rejected)
        (ex_ctx (ex_jar ''secret'' (ex_state ''carol'')) 300)
        (ex_session ''carol'')
        (Some \<lparr> reg_id = ''cred-7'', reg_transports = None \<rparr>)
        (ex_world 3)
      = (ctx_json JNull 400 (Some ''Registration failed'') [], ex_world 3)
   \<and> passkeys (ex_world 3) = [ex_passkey ''bob'' 3]"
proof -
  have m: "userData_id (userData (ex_state ''carol'')) =
             Some (user_id (user (ex_session ''carol'')))"
    by (simp add: ex_state_def ex_session_def userData_id_def)
  show ?thesis
    using m by (simp add: verifyPasskeyRegistration_checked ex_lib_def ex_world_def)
qed

text \<open>
  With the transports present the same ceremony enrols exactly one credential, whose
  counter is the one the oracle extracted and whose owner is the caller.
\<close>

lemma verifyPasskeyRegistration_enrols:
  assumes "resolve_origin options ctx \<noteq> []"
    and "challenge_state env options ctx = Some data"
    and "userData_id (userData data) = Some (user_id (user session))"
    and "verifyRegistrationResponse lib (registration_args options ctx data (Some r)) =
           Resolved \<lparr> reg_verified = True, registrationInfo = Some info \<rparr>"
    and "reg_transports r = Some ts"
  shows "let p = \<lparr> passkey_id = credentialID info,
                   publicKey = toBase64 lib (credentialPublicKey info),
                   userId = user_id (user session),
                   webauthnUserID = random_string ctx,
                   counter = info_counter info,
                   deviceType = credentialDeviceType info,
                   backedUp = credentialBackedUp info,
                   transports = Some (join_js CHR '','' ts),
                   createdAt = now ctx \<rparr>
         in verifyPasskeyRegistration env options lib ctx session (Some r) w =
              (ctx_json (JPasskey p) 200 None [], w\<lparr>passkeys := passkeys w @ [p]\<rparr>)"
  using assms by (simp add: verifyPasskeyRegistration_checked Let_def)

subsection \<open>The relying-party id of a registration\<close>

text \<open>
  Claim C10. The relying-party id of the issued registration options should be the one
  the verification expects. In development mode with \<^verbatim>\<open>rpID = "example.com"\<close> the
  options are issued for \<^verbatim>\<open>localhost\<close>, while verify-registration hands the oracle the
  configured \<^verbatim>\<open>example.com\<close>: an oracle that accepts only \<^verbatim>\<open>localhost\<close> rejects the
  ceremony, and one that accepts only \<^verbatim>\<open>example.com\<close> lets it through.
\<close>

theorem registration_rpID_mismatch_in_development:
  "map_option creation_rp_id
     (creation_options
        (fst (generatePasskeyRegistrationOptions (ex_env ''development'') ex_options
                (ex_ctx [] 100) (ex_session ''alice'') (ex_world 0))))
   = Some ''localhost''
   \<and> issued_cookies
        (fst (generatePasskeyRegistrationOptions (ex_env ''development'') ex_options
                (ex_ctx [] 100) (ex_session ''alice'') (ex_world 0)))
      = ex_jar ''secret'' (ex_state ''alice'')
   \<and> verifyPasskeyRegistration (ex_env ''development'') ex_options (rp_lib ''localhost'')
        (ex_ctx (ex_jar ''secret'' (ex_state ''alice'')) 200) (ex_session ''alice'')
        (Some \<lparr> reg_id = ''cred-7'', reg_transports = Some [''internal''] \<rparr>) (ex_world 0)
      = (ctx_json JNull 400 (Some ''Registration failed'') [], ex_world 0)
   \<and> result_status
        (fst (verifyPasskeyRegistration (ex_env ''development'') ex_options
                (rp_lib ''example.com'')
                (ex_ctx (ex_jar ''secret'' (ex_state ''alice'')) 200) (ex_session ''alice'')
                (Some \<lparr> reg_id = ''cred-7'', reg_transports = Some [''internal''] \<rparr>)
                (ex_world 0)))
      = Some 200"
proof -
  have m: "userData_id (userData (ex_state ''alice'')) =
             Some (user_id (user (ex_session ''alice'')))"
    by (simp add: ex_state_def ex_session_def userData_id_def)
  have a: "map_option creation_rp_id
     (creation_options
        (fst (generatePasskeyRegistrationOptions (ex_env ''development'') ex_options
                (ex_ctx [] 100) (ex_session ''alice'') (ex_world 0))))
     = Some ''localhost''"
    by (simp add: generatePasskeyRegistrationOptions_result ctx_json_def
          generateRegistrationOptions_def opts_def ex_env_def)
  have b: "verifyPasskeyRegistration (ex_env ''development'') ex_options (rp_lib ''localhost'')
        (ex_ctx (ex_jar ''secret'' (ex_state ''alice'')) 200) (ex_session ''alice'')
        (Some \<lparr> reg_id = ''cred-7'', reg_transports = Some [''internal''] \<rparr>) (ex_world 0)
      = (ctx_json JNull 400 (Some ''Registration failed'') [], ex_world 0)"
    using m
    by (simp add: verifyPasskeyRegistration_checked registration_args_def rp_lib_def)
  have c: "result_status
        (fst (verifyPasskeyRegistration (ex_env ''development'') ex_options
                (rp_lib ''example.com'')
                (ex_ctx (ex_jar ''secret'' (ex_state ''alice'')) 200) (ex_session ''alice'')
                (Some \<lparr> reg_id = ''cred-7'', reg_transports = Some [''internal''] \<rparr>)
                (ex_world 0)))
      = Some 200"
    using m
    by (simp add: verifyPasskeyRegistration_checked registration_args_def rp_lib_def
          ctx_json_def)
  show ?thesis
    using a b c by (simp add: ex_registration_cookie)
qed

subsection \<open>Sealing and unsealing the challenge state\<close>

text \<open>
  Claim C6. Round trip: unsealing, with the same secret and before the time to live has
  elapsed, the token that sealing a challenge state produced yields that state.
\<close>

theorem unseal_seal:
  assumes "find (\<lambda>c. cookie_name c = name) jar = Some (seal t name key state)"
    and "t' < t + webAuthnChallengeCookieExpiration"
  shows "unseal t' jar name key = Some state"
  using assms
  by (simp add: unseal_def getSignedCookie_def seal_def setSignedCookie_def JSON_stringify_def)

theorem unseal_seal_witness:
  "find (\<lambda>c. cookie_name c = ''better-auth-passkey'')
     [seal 100 ''better-auth-passkey'' ''secret'' (ex_state ''alice'')]
     = Some (seal 100 ''better-auth-passkey'' ''secret'' (ex_state ''alice''))
   \<and> (86499::nat) < 100 + webAuthnChallengeCookieExpiration
   \<and> unseal 86499 [seal 100 ''better-auth-passkey'' ''secret'' (ex_state ''alice'')]
        ''better-auth-passkey'' ''secret'' = Some (ex_state ''alice'')"
proof -
  have f: "find (\<lambda>c. cookie_name c = ''better-auth-passkey'')
             [seal 100 ''better-auth-passkey'' ''secret'' (ex_state ''alice'')]
             = Some (seal 100 ''better-auth-passkey'' ''secret'' (ex_state ''alice''))"
    by (simp add: seal_def setSignedCookie_def)
  have t: "(86499::nat) < 100 + webAuthnChallengeCookieExpiration"
    by (simp add: webAuthnChallengeCookieExpiration_def)
  show ?thesis
    using f t unseal_seal [OF f t] by simp
qed

text \<open>Past the time to live, or under another secret, the same token does not unseal.\<close>

lemma unseal_expired:
  "find (\<lambda>c. cookie_name c = name) jar = Some (seal t name key state)
   \<Longrightarrow> t + webAuthnChallengeCookieExpiration \<le> t' \<Longrightarrow> unseal t' jar name key = None"
  by (simp add: unseal_def getSignedCookie_def seal_def setSignedCookie_def)

lemma unseal_other_secret:
  "find (\<lambda>c. cookie_name c = name) jar = Some (seal t name key state)
   \<Longrightarrow> key' \<noteq> key \<Longrightarrow> unseal t' jar name key' = None"
  by (simp add: unseal_def getSignedCookie_def seal_def setSignedCookie_def)

text \<open>
  Claim C7. A request whose challenge token is past its time to live and a request whose
  token carries a signature that does not verify get exactly the same answer from both
  verify endpoints: status 400, null body, no message, no cookie, state unchanged.
\<close>

theorem expired_and_forged_tokens_same_outcome:
  assumes "token_expired env options ctx" and "token_forged env options ctx'"
  shows "verifyPasskeyAuthentication env options lib ctx resp w =
           verifyPasskeyAuthentication env options lib ctx' resp w
       \<and> verifyPasskeyRegistration env options lib ctx session rresp w =
           verifyPasskeyRegistration env options lib ctx' session rresp w
       \<and> verifyPasskeyAuthentication env options lib ctx resp w =
           (ctx_json JNull 400 None [], w)
       \<and> verifyPasskeyAuthentication env options lib ctx' resp w =
           (ctx_json JNull 400 None [], w)
       \<and> verifyPasskeyRegistration env options lib ctx session rresp w =
           (ctx_json JNull 400 None [], w)
       \<and> verifyPasskeyRegistration env options lib ctx' session rresp w =
           (ctx_json JNull 400 None [], w)"
  using assms
  by (simp add: verifyPasskeyAuthentication_falsy verifyPasskeyRegistration_falsy token_falsy)

theorem expired_and_forged_tokens_same_outcome_witness:
  "token_expired (ex_env ''production'') ex_options
     (ex_ctx (ex_jar ''secret'' (ex_state ''bob'')) 86500)
   \<and> token_forged (ex_env ''production'') ex_options
        (ex_ctx (ex_jar ''other'' (ex_state ''bob'')) 150)
   \<and> verifyPasskeyAuthentication (ex_env ''production'') ex_options
        (ex_lib Rejected (Resolved \<lparr> auth_verified = True, newCounter = 1 \<rparr>))
        (ex_ctx (ex_jar ''secret'' (ex_state ''bob'')) 86500)
        (Some \<lparr> auth_id = ''cred-42'' \<rparr>) (ex_world 0)
      = (ctx_json JNull 400 None [], ex_world 0)
   \<and> verifyPasskeyAuthentication (ex_env ''production'') ex_options
        (ex_lib Rejected (Resolved \<lparr> auth_verified = True, newCounter = 1 \<rparr>))
        (ex_ctx (ex_jar ''other'' (ex_state ''bob'')) 150)
        (Some \<lparr> auth_id = ''cred-42'' \<rparr>) (ex_world 0)
      = (ctx_json JNull 400 None [], ex_world 0)
   \<and> verifyPasskeyRegistration (ex_env ''production'') ex_options
        (ex_lib Rejected (Resolved \<lparr> auth_verified = True, newCounter = 1 \<rparr>))
        (ex_ctx (ex_jar ''secret'' (ex_state ''bob'')) 86500) (ex_session ''bob'')
        (Some \<lparr> reg_id = ''cred-7'', reg_transports = Some [''usb''] \<rparr>) (ex_world 0)
      = (ctx_json JNull 400 None [], ex_world 0)
   \<and> verifyPasskeyRegistration (ex_env ''production'') ex_options
        (ex_lib Rejected (Resolved \<lparr> auth_verified = True, newCounter = 1 \<rparr>))
        (ex_ctx (ex_jar ''other'' (ex_state ''bob'')) 150) (ex_session ''bob'')
        (Some \<lparr> reg_id = ''cred-7'', reg_transports = Some [''usb''] \<rparr>) (ex_world 0)
      = (ctx_json JNull 400 None [], ex_world 0)"
proof -
  have e: "token_expired (ex_env ''production'') ex_options
             (ex_ctx (ex_jar ''secret'' (ex_state ''bob'')) 86500)"
    by (simp add: token_expired_def seal_def setSignedCookie_def
          webAuthnChallengeCookieExpiration_def)
  have f: "token_forged (ex_env ''production'') ex_options
             (ex_ctx (ex_jar ''other'' (ex_state ''bob'')) 150)"
    by (simp add: token_forged_def seal_def setSignedCookie_def)
  show ?thesis
    using e f
      expired_and_forged_tokens_same_outcome
        [OF e f,
         where lib = "ex_lib Rejected (Resolved \<lparr> auth_verified = True, newCounter = 1 \<rparr>)"
           and resp = "Some \<lparr> auth_id = ''cred-42'' \<rparr>" and w = "ex_world 0"
           and session = "ex_session ''bob''"
           and rresp = "Some \<lparr> reg_id = ''cred-7'', reg_transports = Some [''usb''] \<rparr>"]
    by simp
qed


subsection \<open>Verify-authentication past its checks\<close>

text \<open>
  What verify-authentication does for a request with a resolved origin, an unsealed
  challenge state and a stored credential: the answer depends on the oracle alone.
\<close>

lemma verifyPasskeyAuthentication_checked:
  assumes "resolve_origin options ctx \<noteq> []"
    and "challenge_state env options ctx = Some data"
    and "findOne_id w (auth_id r) = Some passkey"
  shows "verifyPasskeyAuthentication env options lib ctx (Some r) w =
     (case verifyAuthenticationResponse lib
             (authentication_args env options lib ctx data r passkey) of
        Rejected \<Rightarrow> (ctx_json JNull 400 (Some ''Authentication failed'') [], w)
      | Resolved verification \<Rightarrow>
          if \<not> auth_verified verification
          then (ctx_json JNull 401 (Some ''verification failed'') [], w)
          else
            (ctx_json
               (if str_or (callbackURL data) [] = []
                then JSession \<lparr> session_id = new_session_id ctx, session_userId = userId passkey \<rparr>
                else JRedirect (str_or (callbackURL data) [])
                       \<lparr> session_id = new_session_id ctx, session_userId = userId passkey \<rparr>)
               200 None
               [setSignedCookie (now ctx) (sessionToken_name ctx)
                  (PlainText (new_session_id ctx)) (secret ctx) (sessionToken_maxAge ctx)],
             \<lparr> passkeys =
                 map (\<lambda>p. if passkey_id p = passkey_id passkey
                          then p\<lparr>counter := newCounter verification\<rparr> else p) (passkeys w),
               sessions =
                 sessions w @
                   [\<lparr> session_id = new_session_id ctx, session_userId = userId passkey \<rparr>] \<rparr>))"
  using assms
  by (simp add: verifyPasskeyAuthentication_def resolve_origin_def challenge_state_Some
        authentication_args_def update_counter_def createSession_def str_or_def Let_def
      split: awaited.splits option.splits)

lemma findOne_id_Some:
  "findOne_id w i = Some p \<Longrightarrow> passkey_id p = i"
  by (auto simp: findOne_id_def find_Some_iff)

lemma find_map_counter:
  "find (\<lambda>p. passkey_id p = i)
     (map (\<lambda>p. if passkey_id p = i then p\<lparr>counter := c\<rparr> else p) ps) =
   map_option (\<lambda>p. p\<lparr>counter := c\<rparr>) (find (\<lambda>p. passkey_id p = i) ps)"
  by (induction ps) auto

lemma stored_counter_after_update:
  assumes "findOne_id w i = Some p"
  shows "stored_counter
           \<lparr> passkeys = map (\<lambda>q. if passkey_id q = passkey_id p then q\<lparr>counter := c\<rparr> else q)
                          (passkeys w),
             sessions = ss \<rparr> i = Some c"
  using assms findOne_id_Some [OF assms]
  by (simp add: stored_counter_def findOne_id_def find_map_counter)

lemma stored_counter_found:
  "findOne_id w i = Some p \<Longrightarrow> stored_counter w i = Some (counter p)"
  by (simp add: stored_counter_def)

subsection \<open>The signature counter\<close>

text \<open>
  Claim C1, as amended. Let a verify-authentication request pass the origin and token
  checks and name a stored credential. If the oracle reports verified, the request
  succeeds and the stored counter, which was the credential's counter, becomes the
  oracle-reported new counter: it strictly increases exactly when the oracle reports a
  larger value, and the handler compares nothing itself. If the oracle reports not
  verified the answer is 401, if the oracle call throws the answer is 400, and in both
  cases the state, with every stored counter, is returned unchanged.
\<close>

theorem verifyPasskeyAuthentication_counter:
  "(resolve_origin options ctx \<noteq> [] \<and> challenge_state env options ctx = Some data
      \<and> findOne_id w (auth_id r) = Some passkey
      \<and> verifyAuthenticationResponse lib
           (authentication_args env options lib ctx data r passkey) = Resolved v
      \<and> auth_verified v
    \<longrightarrow> result_status (fst (verifyPasskeyAuthentication env options lib ctx (Some r) w)) = Some 200
        \<and> stored_counter w (auth_id r) = Some (counter passkey)
        \<and> stored_counter (snd (verifyPasskeyAuthentication env options lib ctx (Some r) w))
             (auth_id r) = Some (newCounter v))
   \<and> (resolve_origin options ctx \<noteq> [] \<and> challenge_state env options ctx = Some data
        \<and> findOne_id w (auth_id r) = Some passkey
        \<and> verifyAuthenticationResponse lib_n
             (authentication_args env options lib_n ctx data r passkey) = Resolved v_n
        \<and> \<not> auth_verified v_n
      \<longrightarrow> verifyPasskeyAuthentication env options lib_n ctx (Some r) w =
            (ctx_json JNull 401 (Some ''verification failed'') [], w))
   \<and> (resolve_origin options ctx \<noteq> [] \<and> challenge_state env options ctx = Some data
        \<and> findOne_id w (auth_id r) = Some passkey
        \<and> verifyAuthenticationResponse lib_r
             (authentication_args env options lib_r ctx data r passkey) = Rejected
      \<longrightarrow> verifyPasskeyAuthentication env options lib_r ctx (Some r) w =
            (ctx_json JNull 400 (Some ''Authentication failed'') [], w))"
  by (auto simp: verifyPasskeyAuthentication_checked stored_counter_after_update ctx_json_def
        stored_counter_found)

text \<open>
  The claim as written fails: with a stored counter 0 and an oracle that reports verified
  with new counter 0, the request succeeds and the stored counter is 0 afterwards. The
  reported counter is not above the stored one, the request does not fail, and the update
  does not increase the stored value.
\<close>

theorem verifyPasskeyAuthentication_counter_counterexample:
  "stored_counter (ex_world 0) ''cred-42'' = Some 0
   \<and> verifyAuthenticationResponse
        (ex_lib Rejected (Resolved \<lparr> auth_verified = True, newCounter = 0 \<rparr>))
        (authentication_args (ex_env ''production'') ex_options
           (ex_lib Rejected (Resolved \<lparr> auth_verified = True, newCounter = 0 \<rparr>))
           (ex_ctx (ex_jar ''secret'' (ex_state ''bob'')) 200) (ex_state ''bob'')
           \<lparr> auth_id = ''cred-42'' \<rparr> (ex_passkey ''bob'' 0))
      = Resolved \<lparr> auth_verified = True, newCounter = 0 \<rparr>
   \<and> result_status
        (fst (verifyPasskeyAuthentication (ex_env ''production'') ex_options
                (ex_lib Rejected (Resolved \<lparr> auth_verified = True, newCounter = 0 \<rparr>))
                (ex_ctx (ex_jar ''secret'' (ex_state ''bob'')) 200)
                (Some \<lparr> auth_id = ''cred-42'' \<rparr>) (ex_world 0)))
      = Some 200
   \<and> stored_counter
        (snd (verifyPasskeyAuthentication (ex_env ''production'') ex_options
                (ex_lib Rejected (Resolved \<lparr> auth_verified = True, newCounter = 0 \<rparr>))
                (ex_ctx (ex_jar ''secret'' (ex_state ''bob'')) 200)
                (Some \<lparr> auth_id = ''cred-42'' \<rparr>) (ex_world 0)))
        ''cred-42''
      = Some 0"
proof -
  let ?lib = "ex_lib Rejected (Resolved \<lparr> auth_verified = True, newCounter = 0 \<rparr>)"
  have run: "verifyPasskeyAuthentication (ex_env ''production'') ex_options ?lib
               (ex_ctx (ex_jar ''secret'' (ex_state ''bob'')) 200)
               (Some \<lparr> auth_id = ''cred-42'' \<rparr>) (ex_world 0) =
             (ctx_json (JSession \<lparr> session_id = ''s1'', session_userId = ''bob'' \<rparr>) 200 None
                [setSignedCookie 200 ''session_token'' (PlainText ''s1'') ''secret'' 3600],
              \<lparr> passkeys = [ex_passkey ''bob'' 0],
                sessions = [\<lparr> session_id = ''s1'', session_userId = ''bob'' \<rparr>] \<rparr>)"
    by (simp add: verifyPasskeyAuthentication_checked [where data = "ex_state ''bob''"
            and passkey = "ex_passkey ''bob'' 0"] ex_lib_def)
       (simp add: ex_state_def ex_passkey_def ex_world_def str_or_def)
  show ?thesis
    unfolding run
    by (simp add: stored_counter_def findOne_id_def ex_world_def ex_passkey_def ex_lib_def
          ctx_json_def)
qed


theorem verifyPasskeyAuthentication_counter_witness:
  "resolve_origin ex_options (ex_ctx (ex_jar ''secret'' (ex_state ''bob'')) 200) \<noteq> []
   \<and> challenge_state (ex_env ''production'') ex_options
        (ex_ctx (ex_jar ''secret'' (ex_state ''bob'')) 200) = Some (ex_state ''bob'')
   \<and> findOne_id (ex_world 5) (auth_id \<lparr> auth_id = ''cred-42'' \<rparr>) = Some (ex_passkey ''bob'' 5)
   \<and> auth_verified \<lparr> auth_verified = True, newCounter = 6 \<rparr>
   \<and> \<not> auth_verified \<lparr> auth_verified = False, newCounter = 5 \<rparr>
   \<and> stored_counter (ex_world 5) ''cred-42'' = Some 5
   \<and> stored_counter
        (snd (verifyPasskeyAuthentication (ex_env ''production'') ex_options
                (ex_lib Rejected (Resolved \<lparr> auth_verified = True, newCounter = 6 \<rparr>))
                (ex_ctx (ex_jar ''secret'' (ex_state ''bob'')) 200)
                (Some \<lparr> auth_id = ''cred-42'' \<rparr>) (ex_world 5)))
        ''cred-42'' = Some 6
   \<and> verifyPasskeyAuthentication (ex_env ''production'') ex_options
        (ex_lib Rejected (Resolved \<lparr> auth_verified = False, newCounter = 5 \<rparr>))
        (ex_ctx (ex_jar ''secret'' (ex_state ''bob'')) 200)
        (Some \<lparr> auth_id = ''cred-42'' \<rparr>) (ex_world 5)
      = (ctx_json JNull 401 (Some ''verification failed'') [], ex_world 5)
   \<and> verifyPasskeyAuthentication (ex_env ''production'') ex_options
        (ex_lib Rejected Rejected)
        (ex_ctx (ex_jar ''secret'' (ex_state ''bob'')) 200)
        (Some \<lparr> auth_id = ''cred-42'' \<rparr>) (ex_world 5)
      = (ctx_json JNull 400 (Some ''Authentication failed'') [], ex_world 5)"
proof -
  have v: "verifyAuthenticationResponse (ex_lib rv av) a = av" for rv av a
    by (simp add: ex_lib_def)
  show ?thesis
    using v
      verifyPasskeyAuthentication_counter
        [where env = "ex_env ''production''" and options = ex_options
           and ctx = "ex_ctx (ex_jar ''secret'' (ex_state ''bob'')) 200"
           and data = "ex_state ''bob''" and w = "ex_world 5"
           and r = "\<lparr> auth_id = ''cred-42'' \<rparr>" and passkey = "ex_passkey ''bob'' 5"
           and lib = "ex_lib Rejected (Resolved \<lparr> auth_verified = True, newCounter = 6 \<rparr>)"
           and v = "\<lparr> auth_verified = True, newCounter = 6 \<rparr>"
           and lib_n = "ex_lib Rejected (Resolved \<lparr> auth_verified = False, newCounter = 5 \<rparr>)"
           and v_n = "\<lparr> auth_verified = False, newCounter = 5 \<rparr>"
           and lib_r = "ex_lib Rejected Rejected"]
    by (simp add: ex_passkey_def)
qed

lemma generatePasskeyAuthenticationOptions_result:
  "generatePasskeyAuthenticationOptions env options ctx session reqBody w =
     (ctx_json
        (JRequestOptions
           \<lparr> request_challenge = random_challenge ctx,
             request_rpId = opts_rpID (opts env options),
             request_userVerification = ''preferred'',
             allowCredentials =
               (case session of
                  None \<Rightarrow> None
                | Some s \<Rightarrow>
                    if findMany_userId w (user_id (user s)) = [] then None
                    else Some (map (\<lambda>passkey.
                                 \<lparr> desc_id = passkey_id passkey,
                                   desc_transports =
                                     map_option (split_js CHR '','') (transports passkey) \<rparr>)
                              (findMany_userId w (user_id (user s))))) \<rparr>)
        200 None
        [seal (now ctx) (opts_webAuthnChallengeCookie (opts env options)) (secret ctx)
           \<lparr> expectedChallenge = random_challenge ctx,
             userData =
               [(''email'',
                 str_or (map_option (\<lambda>s. user_email (user s)) session)
                   (str_or (map_option (\<lambda>s. user_id (user s)) session) [])),
                (''id'', str_or (map_option (\<lambda>s. user_id (user s)) session) [])],
             callbackURL = (case reqBody of None \<Rightarrow> None | Some b \<Rightarrow> body_callbackURL b) \<rparr>],
      w)"
  by (simp add: generatePasskeyAuthenticationOptions_def seal_def Let_def
        generateAuthenticationOptions_def split: option.splits)

text \<open>The endpoint never reads the email of the request body.\<close>

lemma generatePasskeyAuthenticationOptions_ignores_email:
  "generatePasskeyAuthenticationOptions env options ctx session
     (Some \<lparr> body_email = e, body_callbackURL = cb \<rparr>) w =
   generatePasskeyAuthenticationOptions env options ctx session
     (Some \<lparr> body_email = e', body_callbackURL = cb \<rparr>) w"
  by (simp add: generatePasskeyAuthenticationOptions_result)

subsection \<open>The allow-list of authentication options\<close>

text \<open>
  Claim C4, as amended. If the caller has a session and owns at least one stored
  credential, the options carry an allow-list that is exactly the caller's stored
  credentials in store order, each with its id and its transports split at the commas.
  If the caller has a session but owns no stored credential, or if there is neither a
  session nor an email in the body, the options carry no allow-list.
\<close>

theorem generatePasskeyAuthenticationOptions_allow_list:
  "(findMany_userId w (user_id (user s)) \<noteq> []
      \<longrightarrow> map_option allowCredentials
            (request_options
               (fst (generatePasskeyAuthenticationOptions env options ctx (Some s) reqBody w)))
          = Some (Some (map (\<lambda>passkey.
                               \<lparr> desc_id = passkey_id passkey,
                                 desc_transports =
                                   map_option (split_js CHR '','') (transports passkey) \<rparr>)
                            (findMany_userId w (user_id (user s))))))
   \<and> (findMany_userId w (user_id (user s')) = []
      \<longrightarrow> map_option allowCredentials
            (request_options
               (fst (generatePasskeyAuthenticationOptions env options ctx (Some s') reqBody w)))
          = Some None)
   \<and> ((case reqBody' of None \<Rightarrow> None | Some b \<Rightarrow> body_email b) = None
      \<longrightarrow> map_option allowCredentials
            (request_options
               (fst (generatePasskeyAuthenticationOptions env options ctx None reqBody' w)))
          = Some None)"
  by (simp add: generatePasskeyAuthenticationOptions_result ctx_json_def)

lemma ex_findMany [simp]:
  "findMany_userId (ex_world n) u = (if u = ''bob'' then [ex_passkey ''bob'' n] else [])"
  by (simp add: findMany_userId_def ex_world_def ex_passkey_def)

lemma ex_session_sel [simp]:
  "user_id (user (ex_session u)) = u" "user_email (user (ex_session u)) = u @ ''@example.com''"
  "user_other (user (ex_session u)) = [(''name'', u)]"
  by (simp_all add: ex_session_def)

text \<open>
  The claim as written fails twice. A request without a session whose body names the
  email of \<^verbatim>\<open>bob\<close>, who owns a stored credential, gets options without an allow-list;
  and so does a request with the session of \<^verbatim>\<open>alice\<close>, who owns none.
\<close>

theorem generatePasskeyAuthenticationOptions_allow_list_counterexample:
  "findMany_userId (ex_world 0) ''bob'' = [ex_passkey ''bob'' 0]
   \<and> map_option allowCredentials
        (request_options
           (fst (generatePasskeyAuthenticationOptions (ex_env ''production'') ex_options
                   (ex_ctx [] 100) None
                   (Some \<lparr> body_email = Some ''bob@example.com'', body_callbackURL = None \<rparr>)
                   (ex_world 0))))
      = Some None
   \<and> findMany_userId (ex_world 0) (user_id (user (ex_session ''alice''))) = []
   \<and> map_option allowCredentials
        (request_options
           (fst (generatePasskeyAuthenticationOptions (ex_env ''production'') ex_options
                   (ex_ctx [] 100) (Some (ex_session ''alice'')) None (ex_world 0))))
      = Some None"
  by (simp add: generatePasskeyAuthenticationOptions_result ctx_json_def)

theorem generatePasskeyAuthenticationOptions_allow_list_witness:
  "findMany_userId (ex_world 0) (user_id (user (ex_session ''bob''))) \<noteq> []
   \<and> findMany_userId (ex_world 0) (user_id (user (ex_session ''alice''))) = []
   \<and> (case (None :: AuthenticateBody option) of None \<Rightarrow> None | Some b \<Rightarrow> body_email b) = None
   \<and> map_option allowCredentials
        (request_options
           (fst (generatePasskeyAuthenticationOptions (ex_env ''production'') ex_options
                   (ex_ctx [] 100) (Some (ex_session ''bob'')) None (ex_world 0))))
      = Some (Some [\<lparr> desc_id = ''cred-42'',
                      desc_transports = Some [''internal'', ''hybrid''] \<rparr>])
   \<and> map_option allowCredentials
        (request_options
           (fst (generatePasskeyAuthenticationOptions (ex_env ''production'') ex_options
                   (ex_ctx [] 100) (Some (ex_session ''alice'')) None (ex_world 0))))
      = Some None
   \<and> map_option allowCredentials
        (request_options
           (fst (generatePasskeyAuthenticationOptions (ex_env ''production'') ex_options
                   (ex_ctx [] 100) None None (ex_world 0))))
      = Some None"
proof -
  have sp: "split_js CHR '','' ''internal,hybrid'' = [''internal'', ''hybrid'']"
    by simp
  show ?thesis
    using
      generatePasskeyAuthenticationOptions_allow_list
        [where env = "ex_env ''production''" and options = ex_options and ctx = "ex_ctx [] 100"
           and w = "ex_world 0" and s = "ex_session ''bob''" and s' = "ex_session ''alice''"
           and reqBody = None and reqBody' = None]
    by (simp add: ex_passkey_def)
qed

subsection \<open>The tokens the option endpoints issue\<close>

lemma registration_token_eq:
  "registration_token env options ctx session w =
     [seal (now ctx) (opts_webAuthnChallengeCookie (opts env options)) (secret ctx)
        (registration_state ctx session)]"
  by (simp add: registration_token_def generatePasskeyRegistrationOptions_result ctx_json_def
        registration_state_def)

lemma authentication_token_eq:
  "authentication_token env options ctx session reqBody w =
     [seal (now ctx) (opts_webAuthnChallengeCookie (opts env options)) (secret ctx)
        (authentication_state ctx session reqBody)]"
  by (simp add: authentication_token_def generatePasskeyAuthenticationOptions_result ctx_json_def
        authentication_state_def)

text \<open>
  Both states name their subject under \<^verbatim>\<open>id\<close>, but they are different objects: the
  registration state starts with the property \<^verbatim>\<open>id\<close>, the authentication state with
  \<^verbatim>\<open>email\<close>.
\<close>

lemma registration_state_neq_authentication_state:
  "registration_state ctx session \<noteq> authentication_state ctx' sess reqBody"
  by (simp add: registration_state_def authentication_state_def user_object_def)

lemma registration_state_id:
  "userData_id (userData (registration_state ctx session)) = Some (user_id (user session))"
  by (simp add: registration_state_def userData_id_def user_object_def)

lemma authentication_state_id:
  "userData_id (userData (authentication_state ctx session reqBody)) =
     Some (str_or (map_option (\<lambda>s. user_id (user s)) session) [])"
  by (simp add: authentication_state_def userData_id_def)

lemma str_or_id: "str_or (Some s) [] = s"
  by (simp add: str_or_def)

lemma challenge_state_sealed:
  assumes "now ctx' < t + webAuthnChallengeCookieExpiration"
  shows "challenge_state env options
           (ctx'\<lparr>cookies :=
                   [seal t (opts_webAuthnChallengeCookie (opts env options)) (secret ctx') st]\<rparr>)
         = Some st"
  using assms
  by (simp add: challenge_state_def unseal_def getSignedCookie_def seal_def setSignedCookie_def
        JSON_stringify_def)

lemma resolve_origin_cookies [simp]:
  "resolve_origin options (ctx\<lparr>cookies := jar\<rparr>) = resolve_origin options ctx"
  by (simp add: resolve_origin_def)

lemma authentication_args_cookies [simp]:
  "authentication_args env options lib (ctx\<lparr>cookies := jar\<rparr>) data r passkey =
   authentication_args env options lib ctx data r passkey"
  by (simp add: authentication_args_def)

lemma registration_args_cookies [simp]:
  "registration_args options (ctx\<lparr>cookies := jar\<rparr>) data resp =
   registration_args options ctx data resp"
  by (simp add: registration_args_def)

text \<open>
  Verify-authentication reads the expected challenge and the redirect of the unsealed
  state, verify-registration the expected challenge and the subject id, and nothing else.
\<close>

lemma verifyPasskeyAuthentication_reads:
  assumes "challenge_state env options ctx1 = Some d1"
    and "challenge_state env options ctx2 = Some d2"
    and "expectedChallenge d1 = expectedChallenge d2"
    and "callbackURL d1 = callbackURL d2"
    and "ctx2 = ctx1\<lparr>cookies := jar\<rparr>"
  shows "verifyPasskeyAuthentication env options lib ctx1 resp w =
         verifyPasskeyAuthentication env options lib ctx2 resp w"
  using assms(1,2,3,4) unfolding assms(5)
  by (simp add: verifyPasskeyAuthentication_def challenge_state_Some Let_def
      cong: option.case_cong awaited.case_cong if_cong)

lemma verifyPasskeyRegistration_reads:
  assumes "challenge_state env options ctx1 = Some d1"
    and "challenge_state env options ctx2 = Some d2"
    and "expectedChallenge d1 = expectedChallenge d2"
    and "userData_id (userData d1) = userData_id (userData d2)"
    and "ctx2 = ctx1\<lparr>cookies := jar\<rparr>"
  shows "verifyPasskeyRegistration env options lib ctx1 session resp w =
         verifyPasskeyRegistration env options lib ctx2 session resp w"
  using assms(1,2,3,4) unfolding assms(5)
  by (simp add: verifyPasskeyRegistration_def challenge_state_Some Let_def
      cong: option.case_cong awaited.case_cong if_cong)

lemma verifyPasskeyRegistration_other_subject:
  assumes "resolve_origin options ctx \<noteq> []"
    and "challenge_state env options ctx = Some data"
    and "userData_id (userData data) \<noteq> Some (user_id (user session))"
  shows "verifyPasskeyRegistration env options lib ctx session resp w =
           (Throw (APIError ''UNAUTHORIZED''
                     ''You are not authorized to register this passkey''), w)"
  using assms
  by (simp add: verifyPasskeyRegistration_def resolve_origin_def challenge_state_Some Let_def
      split: option.splits)

subsection \<open>One challenge cookie for both ceremonies\<close>

text \<open>
  Claim C8. Both option endpoints seal their challenge state into a cookie of the same
  name, with the same secret, the same payload format and the same time to live, and no
  verify endpoint checks which ceremony issued the token. For a later request with the
  same secret, within the time to live and with a resolved origin: both tokens unseal to
  the state that was sealed; verify-authentication accepts the token of registration
  options, so that a stored credential the oracle verifies against the registration
  challenge is logged in, with the counter written and a session created;
  verify-registration accepts the token authentication options issued to a caller, so
  that a ceremony of that caller the oracle verifies against the authentication challenge
  enrols a credential; verify-registration rejects an authentication token with
  \<^verbatim>\<open>UNAUTHORIZED\<close> when the token's subject id differs from the caller's id; and
  each verify endpoint answers a token of the other ceremony exactly as it answers a
  token of its own with the same challenge.
\<close>

theorem challenge_token_shared_by_both_flows:
  assumes "now ctx' < now ctx + webAuthnChallengeCookieExpiration"
    and "secret ctx' = secret ctx"
    and "resolve_origin options ctx' \<noteq> []"
  shows "registration_token env options ctx session w0 =
           [seal (now ctx) (opts_webAuthnChallengeCookie (opts env options)) (secret ctx)
              (registration_state ctx session)]
    \<and> authentication_token env options ctx sess reqBody w0 =
           [seal (now ctx) (opts_webAuthnChallengeCookie (opts env options)) (secret ctx)
              (authentication_state ctx sess reqBody)]
    \<and> challenge_state env options
           (ctx'\<lparr>cookies := registration_token env options ctx session w0\<rparr>) =
         Some (registration_state ctx session)
    \<and> challenge_state env options
           (ctx'\<lparr>cookies := authentication_token env options ctx sess reqBody w0\<rparr>) =
         Some (authentication_state ctx sess reqBody)
    \<and> (findOne_id w (auth_id r) = Some passkey
          \<and> verifyAuthenticationResponse lib
               (authentication_args env options lib ctx' (registration_state ctx session)
                  r passkey) = Resolved v
          \<and> auth_verified v
        \<longrightarrow> verifyPasskeyAuthentication env options lib
              (ctx'\<lparr>cookies := registration_token env options ctx session w0\<rparr>) (Some r) w =
            (ctx_json
               (JSession \<lparr> session_id = new_session_id ctx', session_userId = userId passkey \<rparr>)
               200 None
               [setSignedCookie (now ctx') (sessionToken_name ctx')
                  (PlainText (new_session_id ctx')) (secret ctx') (sessionToken_maxAge ctx')],
             \<lparr> passkeys =
                 map (\<lambda>p. if passkey_id p = passkey_id passkey
                          then p\<lparr>counter := newCounter v\<rparr> else p) (passkeys w),
               sessions =
                 sessions w @
                   [\<lparr> session_id = new_session_id ctx', session_userId = userId passkey \<rparr>] \<rparr>))
    \<and> (user_id (user caller) = user_id (user session)
          \<and> verifyRegistrationResponse lib
               (registration_args options ctx'
                  (authentication_state ctx (Some session) reqBody) (Some rr)) =
              Resolved \<lparr> reg_verified = True, registrationInfo = Some info \<rparr>
          \<and> reg_transports rr = Some ts
        \<longrightarrow> (let p = \<lparr> passkey_id = credentialID info,
                       publicKey = toBase64 lib (credentialPublicKey info),
                       userId = user_id (user caller),
                       webauthnUserID = random_string ctx',
                       counter = info_counter info,
                       deviceType = credentialDeviceType info,
                       backedUp = credentialBackedUp info,
                       transports = Some (join_js CHR '','' ts),
                       createdAt = now ctx' \<rparr>
             in verifyPasskeyRegistration env options lib
                  (ctx'\<lparr>cookies :=
                          authentication_token env options ctx (Some session) reqBody w0\<rparr>)
                  caller (Some rr) w =
                (ctx_json (JPasskey p) 200 None [], w\<lparr>passkeys := passkeys w @ [p]\<rparr>)))
    \<and> (str_or (map_option (\<lambda>s. user_id (user s)) sess) [] \<noteq> user_id (user caller)
        \<longrightarrow> verifyPasskeyRegistration env options lib
              (ctx'\<lparr>cookies := authentication_token env options ctx sess reqBody w0\<rparr>)
              caller rresp w =
            (Throw (APIError ''UNAUTHORIZED''
                      ''You are not authorized to register this passkey''), w))
    \<and> verifyPasskeyAuthentication env options lib
          (ctx'\<lparr>cookies := registration_token env options ctx session w0\<rparr>) resp w =
        verifyPasskeyAuthentication env options lib
          (ctx'\<lparr>cookies := authentication_token env options ctx sess None w0\<rparr>) resp w
    \<and> verifyPasskeyRegistration env options lib
          (ctx'\<lparr>cookies := authentication_token env options ctx (Some session) reqBody w0\<rparr>)
          caller rresp w =
        verifyPasskeyRegistration env options lib
          (ctx'\<lparr>cookies := registration_token env options ctx session w0\<rparr>) caller rresp w"
proof -
  have live: "now ctx' < now ctx + webAuthnChallengeCookieExpiration"
    by (rule assms(1))
  have org: "resolve_origin options (ctx'\<lparr>cookies := jar\<rparr>) \<noteq> []" for jar
    using assms(3) by simp
  have R: "challenge_state env options
             (ctx'\<lparr>cookies := registration_token env options ctx session w0\<rparr>) =
           Some (registration_state ctx session)"
    unfolding registration_token_eq assms(2) [symmetric]
    by (rule challenge_state_sealed [OF live])
  have A: "challenge_state env options
             (ctx'\<lparr>cookies := authentication_token env options ctx sess' body' w0\<rparr>) =
           Some (authentication_state ctx sess' body')" for sess' body'
    unfolding authentication_token_eq assms(2) [symmetric]
    by (rule challenge_state_sealed [OF live])
  have login: "verifyPasskeyAuthentication env options lib
              (ctx'\<lparr>cookies := registration_token env options ctx session w0\<rparr>) (Some r) w =
            (ctx_json
               (JSession \<lparr> session_id = new_session_id ctx', session_userId = userId passkey \<rparr>)
               200 None
               [setSignedCookie (now ctx') (sessionToken_name ctx')
                  (PlainText (new_session_id ctx')) (secret ctx') (sessionToken_maxAge ctx')],
             \<lparr> passkeys =
                 map (\<lambda>p. if passkey_id p = passkey_id passkey
                          then p\<lparr>counter := newCounter v\<rparr> else p) (passkeys w),
               sessions =
                 sessions w @
                   [\<lparr> session_id = new_session_id ctx', session_userId = userId passkey \<rparr>] \<rparr>)"
    if "findOne_id w (auth_id r) = Some passkey"
      and "verifyAuthenticationResponse lib
             (authentication_args env options lib ctx' (registration_state ctx session)
                r passkey) = Resolved v"
      and "auth_verified v"
    using that(2,3)
    by (simp add: verifyPasskeyAuthentication_checked [OF org R that(1)])
       (simp add: registration_state_def str_or_def)
  have enrol: "let p = \<lparr> passkey_id = credentialID info,
                       publicKey = toBase64 lib (credentialPublicKey info),
                       userId = user_id (user caller),
                       webauthnUserID = random_string ctx',
                       counter = info_counter info,
                       deviceType = credentialDeviceType info,
                       backedUp = credentialBackedUp info,
                       transports = Some (join_js CHR '','' ts),
                       createdAt = now ctx' \<rparr>
             in verifyPasskeyRegistration env options lib
                  (ctx'\<lparr>cookies :=
                          authentication_token env options ctx (Some session) reqBody w0\<rparr>)
                  caller (Some rr) w =
                (ctx_json (JPasskey p) 200 None [], w\<lparr>passkeys := passkeys w @ [p]\<rparr>)"
    if "user_id (user caller) = user_id (user session)"
      and "verifyRegistrationResponse lib
             (registration_args options ctx'
                (authentication_state ctx (Some session) reqBody) (Some rr)) =
            Resolved \<lparr> reg_verified = True, registrationInfo = Some info \<rparr>"
      and "reg_transports rr = Some ts"
  proof -
    have sub: "userData_id (userData (authentication_state ctx (Some session) reqBody)) =
                 Some (user_id (user caller))"
      using that(1) by (simp add: authentication_state_id str_or_id)
    have orc: "verifyRegistrationResponse lib
                 (registration_args options
                    (ctx'\<lparr>cookies :=
                            authentication_token env options ctx (Some session) reqBody w0\<rparr>)
                    (authentication_state ctx (Some session) reqBody) (Some rr)) =
               Resolved \<lparr> reg_verified = True, registrationInfo = Some info \<rparr>"
      using that(2) by simp
    show ?thesis
      using verifyPasskeyRegistration_enrols [OF org A sub orc that(3)] by simp
  qed
  have reject: "verifyPasskeyRegistration env options lib
             (ctx'\<lparr>cookies := authentication_token env options ctx sess reqBody w0\<rparr>)
             caller rresp w =
           (Throw (APIError ''UNAUTHORIZED''
                     ''You are not authorized to register this passkey''), w)"
    if "str_or (map_option (\<lambda>s. user_id (user s)) sess) [] \<noteq> user_id (user caller)"
    using that
    by (intro verifyPasskeyRegistration_other_subject [OF org A])
       (simp add: authentication_state_id)
  have D: "verifyPasskeyAuthentication env options lib
             (ctx'\<lparr>cookies := registration_token env options ctx session w0\<rparr>) resp w =
           verifyPasskeyAuthentication env options lib
             (ctx'\<lparr>cookies := authentication_token env options ctx sess None w0\<rparr>) resp w"
    by (rule verifyPasskeyAuthentication_reads [OF R A])
       (simp_all add: registration_state_def authentication_state_def)
  have E: "verifyPasskeyRegistration env options lib
             (ctx'\<lparr>cookies := authentication_token env options ctx (Some session) reqBody w0\<rparr>)
             caller rresp w =
           verifyPasskeyRegistration env options lib
             (ctx'\<lparr>cookies := registration_token env options ctx session w0\<rparr>) caller rresp w"
    by (rule verifyPasskeyRegistration_reads
              [OF A R, where jar = "registration_token env options ctx session w0"])
       (simp add: registration_state_def authentication_state_def,
        simp add: registration_state_id authentication_state_id str_or_id,
        simp)
  show ?thesis
    using R A [of sess reqBody] login enrol reject D E
    by (simp add: registration_token_eq authentication_token_eq)
qed


theorem challenge_token_shared_by_both_flows_witness:
  "now (ex_ctx [] 200) < now (ex_ctx [] 100) + webAuthnChallengeCookieExpiration
   \<and> secret (ex_ctx [] 200) = secret (ex_ctx [] 100)
   \<and> resolve_origin ex_options (ex_ctx [] 200) \<noteq> []
   \<and> findOne_id (ex_world 0) (auth_id \<lparr> auth_id = ''cred-42'' \<rparr>) = Some (ex_passkey ''bob'' 0)
   \<and> auth_verified \<lparr> auth_verified = True, newCounter = 1 \<rparr>
   \<and> user_id (user (ex_session ''bob'')) = user_id (user (ex_session ''bob''))
   \<and> reg_transports \<lparr> reg_id = ''cred-7'', reg_transports = Some [''usb''] \<rparr> = Some [''usb'']
   \<and> str_or (map_option (\<lambda>s. user_id (user s)) (None :: CallerSession option)) []
        \<noteq> user_id (user (ex_session ''bob''))
   \<and> challenge_state (ex_env ''production'') ex_options
        ((ex_ctx [] 200)\<lparr>cookies :=
            registration_token (ex_env ''production'') ex_options (ex_ctx [] 100)
              (ex_session ''bob'') (ex_world 0)\<rparr>)
      = Some (ex_state ''bob'')
   \<and> verifyPasskeyAuthentication (ex_env ''production'') ex_options
        (ex_lib (Resolved \<lparr> reg_verified = True, registrationInfo = Some ex_info \<rparr>)
           (Resolved \<lparr> auth_verified = True, newCounter = 1 \<rparr>))
        ((ex_ctx [] 200)\<lparr>cookies :=
            registration_token (ex_env ''production'') ex_options (ex_ctx [] 100)
              (ex_session ''bob'') (ex_world 0)\<rparr>)
        (Some \<lparr> auth_id = ''cred-42'' \<rparr>) (ex_world 0)
      = (ctx_json (JSession \<lparr> session_id = ''s1'', session_userId = ''bob'' \<rparr>) 200 None
           [setSignedCookie 200 ''session_token'' (PlainText ''s1'') ''secret'' 3600],
         \<lparr> passkeys = [ex_passkey ''bob'' 1],
           sessions = [\<lparr> session_id = ''s1'', session_userId = ''bob'' \<rparr>] \<rparr>)
   \<and> verifyPasskeyRegistration (ex_env ''production'') ex_options
        (ex_lib (Resolved \<lparr> reg_verified = True, registrationInfo = Some ex_info \<rparr>)
           (Resolved \<lparr> auth_verified = True, newCounter = 1 \<rparr>))
        ((ex_ctx [] 200)\<lparr>cookies :=
            authentication_token (ex_env ''production'') ex_options (ex_ctx [] 100)
              (Some (ex_session ''bob'')) None (ex_world 0)\<rparr>)
        (ex_session ''bob'')
        (Some \<lparr> reg_id = ''cred-7'', reg_transports = Some [''usb''] \<rparr>) (ex_world 0)
      = (ctx_json
           (JPasskey
              \<lparr> passkey_id = ''cred-7'', publicKey = ''AQID'', userId = ''bob'',
                webauthnUserID = ''handle'', counter = 0, deviceType = singleDevice,
                backedUp = False, transports = Some ''usb'', createdAt = 200 \<rparr>)
           200 None [],
         \<lparr> passkeys =
             [ex_passkey ''bob'' 0,
              \<lparr> passkey_id = ''cred-7'', publicKey = ''AQID'', userId = ''bob'',
                webauthnUserID = ''handle'', counter = 0, deviceType = singleDevice,
                backedUp = False, transports = Some ''usb'', createdAt = 200 \<rparr>],
           sessions = [] \<rparr>)
   \<and> verifyPasskeyRegistration (ex_env ''production'') ex_options
        (ex_lib (Resolved \<lparr> reg_verified = True, registrationInfo = Some ex_info \<rparr>)
           (Resolved \<lparr> auth_verified = True, newCounter = 1 \<rparr>))
        ((ex_ctx [] 200)\<lparr>cookies :=
            authentication_token (ex_env ''production'') ex_options (ex_ctx [] 100)
              None None (ex_world 0)\<rparr>)
        (ex_session ''bob'') None (ex_world 0)
      = (Throw (APIError ''UNAUTHORIZED''
                  ''You are not authorized to register this passkey''), ex_world 0)"
proof -
  let ?lib = "ex_lib (Resolved \<lparr> reg_verified = True, registrationInfo = Some ex_info \<rparr>)
                (Resolved \<lparr> auth_verified = True, newCounter = 1 \<rparr>)"
  have t: "now (ex_ctx [] 200) < now (ex_ctx [] 100) + webAuthnChallengeCookieExpiration"
    by (simp add: webAuthnChallengeCookieExpiration_def)
  have k: "secret (ex_ctx [] 200) = secret (ex_ctx [] 100)"
    by simp
  have o: "resolve_origin ex_options (ex_ctx [] 200) \<noteq> []"
    by simp
  have st: "registration_state (ex_ctx [] 100) (ex_session ''bob'') = ex_state ''bob''"
    by (simp add: registration_state_def ex_state_def str_or_def user_object_def)
  have va: "verifyAuthenticationResponse ?lib a =
              Resolved \<lparr> auth_verified = True, newCounter = 1 \<rparr>" for a
    by (simp add: ex_lib_def)
  have vr: "verifyRegistrationResponse ?lib a =
              Resolved \<lparr> reg_verified = True, registrationInfo = Some ex_info \<rparr>" for a
    by (simp add: ex_lib_def)
  have b64: "toBase64 ?lib bs = ''AQID''" for bs
    by (simp add: ex_lib_def)
  have an: "str_or (map_option (\<lambda>s. user_id (user s)) (None :: CallerSession option)) []
              \<noteq> user_id (user (ex_session ''bob''))"
    by (simp add: str_or_def)
  have w1: "map (\<lambda>p. if passkey_id p = passkey_id (ex_passkey ''bob'' 0)
                     then p\<lparr>counter := c\<rparr> else p) (passkeys (ex_world 0)) =
              [ex_passkey ''bob'' c]"
    "sessions (ex_world 0) = []" for c
    by (simp_all add: ex_world_def ex_passkey_def)
  have w2: "(ex_world 0)\<lparr>passkeys := passkeys (ex_world 0) @ [p]\<rparr> =
            \<lparr> passkeys = [ex_passkey ''bob'' 0, p], sessions = [] \<rparr>" for p
    by (simp add: ex_world_def)
  have uid: "userId (ex_passkey ''bob'' 0) = ''bob''"
    by (simp add: ex_passkey_def)
  show ?thesis
    using t k o st va vr b64 an w1 w2 uid
      challenge_token_shared_by_both_flows
        [OF t k o, where env = "ex_env ''production''" and session = "ex_session ''bob''"
           and ?w0.0 = "ex_world 0" and sess = None and reqBody = None
           and caller = "ex_session ''bob''" and w = "ex_world 0" and lib = ?lib
           and r = "\<lparr> auth_id = ''cred-42'' \<rparr>" and passkey = "ex_passkey ''bob'' 0"
           and v = "\<lparr> auth_verified = True, newCounter = 1 \<rparr>"
           and rr = "\<lparr> reg_id = ''cred-7'', reg_transports = Some [''usb''] \<rparr>"
           and info = ex_info and ts = "[''usb'']"
           and resp = None and rresp = None]
    by (simp add: Let_def ex_info_def cong: conj_cong)
qed

end
